theory Spec2Isabelle
  imports Main
begin

section \<open>The Clockodo client (src/clockodo.ts)\<close>

text \<open>
  A shallow embedding of the class \<open>ClockodoAPI\<close> and of its \<open>Logger\<close>. The client
  talks to three things outside itself: the process environment, the \<open>fetch\<close> function
  of the runtime and the log file. They are made explicit:
  \<^item> the environment is a map from variable names to strings;
  \<^item> \<open>fetch\<close>, the methods \<open>text()\<close> and \<open>json()\<close> of the response it returns,
    and the \<open>message\<close> getter of zod's error class form the \<open>runtime\<close> the client is
    given;
  \<^item> a zod schema is the function \<open>parse\<close> of the schema: from a decoded JSON body to
    the list of issues or the validated value;
  \<^item> the log file and the list of the URLs handed to \<open>fetch\<close> form the \<open>world\<close>,
    passed through every operation and returned updated.

  \<open>fetch\<close> is a function of the request. Within one retrieval operation no request is
  made twice (the page number grows at every turn), so a backend that keeps state between
  requests is such a function as far as one operation can tell.

  JavaScript numbers are integers here (the envelope fields, the page counter, the ids and
  the HTTP status), and every \<open>throw\<close> and every rejected promise is the \<open>Inl\<close>
  branch of a sum. Writing to the log file is taken to succeed; the time stamp that starts
  each log line comes from the clock and is left out.
\<close>

subsection \<open>Thrown values, requests and responses\<close>

text \<open>
  What a \<open>catch\<close> clause can receive: an \<open>Error\<close> (with the name of its class and its
  message), a \<open>ZodError\<close> with its issues, or a value that is not an \<open>Error\<close>, kept as the
  string \<open>String(error)\<close> gives for it.
\<close>

datatype 'i thrown =
    JsError string string
  | ZodError "'i list"
  | NonError string

record Request =
  httpMethod :: string
  url :: string
  headers :: "(string \<times> string) list"

text \<open>
  The value a JSON body decodes to: \<open>null\<close>, or any other value. The client treats the
  two differently in one place, where it lists the keys of the body for its log.
\<close>

datatype 'j json =
    JsonNull
  | JsonValue 'j

text \<open>
  A \<open>Response\<close>: the promises returned by \<open>text()\<close> and \<open>json()\<close> either resolve or
  reject (a connection cut while the body is read, a body that is not JSON).
\<close>

record ('i, 'j) Response =
  status :: int
  statusText :: string
  textBody :: "'i thrown + string"
  jsonBody :: "'i thrown + 'j json"

text \<open>\<open>response.ok\<close>: the status is in the range 200 to 299.\<close>

definition ok :: "('i, 'j) Response \<Rightarrow> bool" where
  "ok response = (200 \<le> status response \<and> status response \<le> 299)"

record ('i, 'j) runtime =
  fetch :: "Request \<Rightarrow> 'i thrown + ('i, 'j) Response"
  zodMessage :: "'i list \<Rightarrow> string"

text \<open>\<open>error instanceof Error ? error.message : String(error)\<close>\<close>

fun error_text :: "('i, 'j) runtime \<Rightarrow> 'i thrown \<Rightarrow> string" where
  "error_text rt (JsError cls msg) = msg"
| "error_text rt (ZodError iss) = zodMessage rt iss"
| "error_text rt (NonError s) = s"

text \<open>A number in a template literal: the decimal digits, with a sign when negative.\<close>

fun show_nat :: "nat \<Rightarrow> string" where
  "show_nat n =
     (if n < 10 then [''0123456789'' ! n]
      else show_nat (n div 10) @ [''0123456789'' ! (n mod 10)])"

definition show_int :: "int \<Rightarrow> string" where
  "show_int i = (if i < 0 then CHR ''-'' # show_nat (nat (- i)) else show_nat (nat i))"

subsection \<open>The zod schemas: the shapes of the validated responses\<close>

text \<open>
  Each record holds the required fields of its schema; the optional fields of a schema
  live in the extension slot of the record. The field \<open>text\<close> of an entry is \<open>entry_text\<close>
  here. A nullable field is an \<open>option\<close>.
\<close>

record Paging =
  items_per_page :: int
  current_page :: int
  count_pages :: int
  count_items :: int

record ClockodoUser =
  id :: int
  name :: string
  email :: string
  active :: bool

record 'u ClockodoUsersResponse =
  data :: "'u list"
  paging :: Paging

record ClockodoEntry =
  id :: int
  customers_id :: int
  projects_id :: "int option"
  users_id :: int
  billable :: int
  entry_text :: "string option"
  time_since :: string
  time_until :: string
  time_insert :: string
  time_last_change :: string

record 'e ClockodoEntriesResponse =
  entries :: "'e list"
  paging :: Paging

record ClockodoProject =
  id :: int
  customers_id :: int
  name :: string
  number :: "string option"
  active :: bool
  billable_default :: bool
  completed :: bool
  completed_at :: "string option"
  test_data :: bool
  count_subprojects :: int

record 'p ClockodoProjectsResponse =
  data :: "'p list"
  paging :: Paging

subsection \<open>The world and the Logger\<close>

text \<open>
  The object passed as \<open>data\<close> to \<open>Logger.log\<close>, one constructor for each shape the client
  passes. \<open>ReceivedData\<close> stands for the summary (type, keys, entry count) computed from the
  decoded body it holds.
\<close>

datatype ('i, 'j) log_data =
    NoData
  | InitData string string bool
  | HeadersData "(string \<times> string) list"
  | HttpErrorData string string
  | ReceivedData "'j json"
  | ZodErrorData string "'i list"
  | RequestFailedData string string

datatype ('i, 'j) log_line =
    Started
  | Line string "('i, 'j) log_data"

text \<open>
  \<open>logfile\<close> is \<open>None\<close> while the log file does not exist; \<open>fetched\<close> lists the URLs handed
  to \<open>fetch\<close>, in the order of the calls.
\<close>

record ('i, 'j) world =
  fetched :: "string list"
  logfile :: "('i, 'j) log_line list option"

definition Logger_new :: "('i, 'j) world \<Rightarrow> ('i, 'j) world" where
  "Logger_new w = (case logfile w of None \<Rightarrow> w\<lparr>logfile := Some [Started]\<rparr> | Some ls \<Rightarrow> w)"

definition Logger_log :: "string \<Rightarrow> ('i, 'j) log_data \<Rightarrow> ('i, 'j) world \<Rightarrow> ('i, 'j) world" where
  "Logger_log message dat w =
     w\<lparr>logfile := Some ((case logfile w of None \<Rightarrow> [] | Some ls \<Rightarrow> ls) @ [Line message dat])\<rparr>"

definition Logger_logRequest ::
  "string \<Rightarrow> string \<Rightarrow> (string \<times> string) list \<Rightarrow> ('i, 'j) world \<Rightarrow> ('i, 'j) world" where
  "Logger_logRequest meth target hdrs w =
     Logger_log (''>>> REQUEST '' @ meth @ '' '' @ target) (HeadersData hdrs) w"

definition Logger_logResponse ::
  "int \<Rightarrow> string \<Rightarrow> ('i, 'j) log_data \<Rightarrow> ('i, 'j) world \<Rightarrow> ('i, 'j) world" where
  "Logger_logResponse code codeText dat w =
     Logger_log (''<<< RESPONSE '' @ show_int code @ '' '' @ codeText) dat w"

definition Logger_logError :: "string \<Rightarrow> ('i, 'j) log_data \<Rightarrow> ('i, 'j) world \<Rightarrow> ('i, 'j) world" where
  "Logger_logError err details w = Logger_log (''!!! ERROR: '' @ err) details w"

subsection \<open>The client\<close>

record ClockodoAPI =
  email :: string
  apiKey :: string
  baseUrl :: string

text \<open>\<open>process.env.X || ""\<close>: a missing variable and an empty one both give the empty string.\<close>

definition or_empty :: "string option \<Rightarrow> string" where
  "or_empty v = (case v of None \<Rightarrow> [] | Some s \<Rightarrow> s)"

text \<open>The constructor: the result is the new client, or the error it throws.\<close>

definition ClockodoAPI_new ::
  "(string \<Rightarrow> string option) \<Rightarrow> ('i, 'j) world \<Rightarrow> ('i thrown + ClockodoAPI) \<times> ('i, 'j) world" where
  "ClockodoAPI_new env w0 =
     (let this = \<lparr>ClockodoAPI.email = or_empty (env ''CLOCKODO_EMAIL''),
                  apiKey = or_empty (env ''CLOCKODO_API_KEY''),
                  baseUrl = ''https://my.clockodo.com/api''\<rparr>;
          w1 = Logger_new w0
      in if ClockodoAPI.email this = [] \<or> apiKey this = []
         then (Inl (JsError ''Error''
                 ''CLOCKODO_EMAIL and CLOCKODO_API_KEY environment variables are required''), w1)
         else (Inr this,
               Logger_log ''ClockodoAPI initialized''
                 (InitData (ClockodoAPI.email this) (baseUrl this) (apiKey this \<noteq> [])) w1))"

text \<open>The request \<open>fetch\<close> is called with: the headers carry the API key.\<close>

definition fetch_request :: "ClockodoAPI \<Rightarrow> string \<Rightarrow> Request" where
  "fetch_request this target =
     \<lparr>httpMethod = ''GET'', url = target,
      headers = [(''Accept'', ''application/json''),
                 (''X-ClockodoApiUser'', ClockodoAPI.email this),
                 (''X-ClockodoApiKey'', apiKey this),
                 (''X-Clockodo-External-Application'', ''mcp-ts'')]\<rparr>"

text \<open>
  The \<open>try\<close> block of \<open>makeRequest\<close>: \<open>Inl\<close> is what it throws, to be handled by the
  \<open>catch\<close> clause below. The object logged as "Response data received" holds
  \<open>typeof data === 'object' ? Object.keys(data) : undefined\<close>: for the body \<open>null\<close> the
  test holds and \<open>Object.keys(null)\<close> throws a TypeError, before the log line is written
  and before the schema is applied.
\<close>

definition makeRequest_try ::
  "('i, 'j) runtime \<Rightarrow> ClockodoAPI \<Rightarrow> string \<Rightarrow> ('j json \<Rightarrow> 'i list + 'r) \<Rightarrow> ('i, 'j) world
     \<Rightarrow> ('i thrown + 'r) \<times> ('i, 'j) world" where
  "makeRequest_try rt this target schema w1 =
     (let w2 = w1\<lparr>fetched := fetched w1 @ [target]\<rparr> in
      case fetch rt (fetch_request this target) of
        Inl error \<Rightarrow> (Inl error, w2)
      | Inr response \<Rightarrow>
          (let w3 = Logger_logResponse (status response) (statusText response) NoData w2 in
           if \<not> ok response then
             (case textBody response of
                Inl error \<Rightarrow> (Inl error, w3)
              | Inr errorText \<Rightarrow>
                  (Inl (JsError ''Error''
                     (''HTTP '' @ show_int (status response) @ '': '' @ statusText response)),
                   Logger_logError
                     (''HTTP '' @ show_int (status response) @ '': '' @ statusText response)
                     (HttpErrorData target errorText) w3))
           else
             (case jsonBody response of
                Inl error \<Rightarrow> (Inl error, w3)
              | Inr JsonNull \<Rightarrow>
                  (Inl (JsError ''TypeError'' ''Cannot convert undefined or null to object''), w3)
              | Inr body \<Rightarrow>
                  (let w4 = Logger_log ''Response data received'' (ReceivedData body) w3 in
                   case schema body of
                     Inl iss \<Rightarrow> (Inl (ZodError iss), w4)
                   | Inr parsedData \<Rightarrow>
                       (Inr parsedData,
                        Logger_log ''Data successfully validated with schema'' NoData w4)))))"

definition makeRequest ::
  "('i, 'j) runtime \<Rightarrow> ClockodoAPI \<Rightarrow> string \<Rightarrow> ('j json \<Rightarrow> 'i list + 'r) \<Rightarrow> ('i, 'j) world
     \<Rightarrow> ('i thrown + 'r) \<times> ('i, 'j) world" where
  "makeRequest rt this endpoint schema w0 =
     (let target = baseUrl this @ endpoint;
          hdrs = [(''Accept'', ''application/json''),
                  (''X-ClockodoApiUser'', ClockodoAPI.email this),
                  (''X-ClockodoApiKey'', ''***''),
                  (''X-Clockodo-External-Application'', ''mcp-ts'')];
          w1 = Logger_logRequest ''GET'' target hdrs w0
      in case makeRequest_try rt this target schema w1 of
           (Inr parsedData, w) \<Rightarrow> (Inr parsedData, w)
         | (Inl (ZodError iss), w) \<Rightarrow>
             (Inl (JsError ''Error'' (''Invalid API response format: '' @ zodMessage rt iss)),
              Logger_logError ''Zod validation error'' (ZodErrorData (zodMessage rt iss) iss) w)
         | (Inl error, w) \<Rightarrow>
             (Inl error,
              Logger_logError ''Request failed'' (RequestFailedData (error_text rt error) target) w))"

text \<open>
  The \<open>while (hasMorePages)\<close> loop. The three retrieval operations hold the same loop; they
  differ in the request of a page, in the items taken from a response and in the envelope
  read for \<open>count_pages\<close>, which are the parameters \<open>request\<close>, \<open>items\<close> and \<open>pages\<close>.
  \<open>hasMorePages\<close> starts as \<open>true\<close>, so the body runs before any test; after it the loop
  goes on when \<open>page < response.paging.count_pages\<close>, with \<open>page + 1\<close>. A request that
  throws leaves the loop with the error. A loop that never ends is \<open>None\<close>.
\<close>

partial_function (option) paginate ::
  "(int \<Rightarrow> 'w \<Rightarrow> ('x + 'r) \<times> 'w) \<Rightarrow> ('r \<Rightarrow> 'a list) \<Rightarrow> ('r \<Rightarrow> int) \<Rightarrow> 'a list \<Rightarrow> int \<Rightarrow> 'w
     \<Rightarrow> (('x + 'a list) \<times> 'w) option" where
  "paginate request items pages allItems page w =
     (case request page w of
        (Inl error, w') \<Rightarrow> Some (Inl error, w')
      | (Inr response, w') \<Rightarrow>
          (let allItems' = allItems @ items response in
           if page < pages response
           then paginate request items pages allItems' (page + 1) w'
           else Some (Inr allItems', w')))"

text \<open>
  The \<open>catch\<close> clause of a retrieval operation: a new \<open>Error\<close> whose message is the
  operation's prefix and the text of the error caught.
\<close>

definition rethrow ::
  "('i, 'j) runtime \<Rightarrow> string \<Rightarrow> (('i thrown + 'a) \<times> 'w) option \<Rightarrow> (('i thrown + 'a) \<times> 'w) option" where
  "rethrow rt prefix outcome =
     (case outcome of
        None \<Rightarrow> None
      | Some (Inr allItems, w) \<Rightarrow> Some (Inr allItems, w)
      | Some (Inl error, w) \<Rightarrow> Some (Inl (JsError ''Error'' (prefix @ error_text rt error)), w))"

definition users_endpoint :: "int \<Rightarrow> string" where
  "users_endpoint page = ''/v3/users?page='' @ show_int page"

definition entries_endpoint :: "string \<Rightarrow> string \<Rightarrow> int \<Rightarrow> string" where
  "entries_endpoint timeSince timeUntil page =
     ''/v2/entries?time_since='' @ timeSince @ ''&time_until='' @ timeUntil @ ''&page='' @ show_int page"

definition projects_endpoint :: "int \<Rightarrow> string" where
  "projects_endpoint page = ''/v4/projects?page='' @ show_int page"

definition getUsers ::
  "('i, 'j) runtime \<Rightarrow> ClockodoAPI
     \<Rightarrow> ('j json \<Rightarrow> 'i list + ('z ClockodoUser_scheme) ClockodoUsersResponse) \<Rightarrow> ('i, 'j) world
     \<Rightarrow> (('i thrown + ('z ClockodoUser_scheme) list) \<times> ('i, 'j) world) option" where
  "getUsers rt this ClockodoUsersResponseSchema w =
     rethrow rt ''Failed to fetch users from Clockodo API: ''
       (paginate (\<lambda>page. makeRequest rt this (users_endpoint page) ClockodoUsersResponseSchema)
          (\<lambda>response. ClockodoUsersResponse.data response)
          (\<lambda>response. count_pages (ClockodoUsersResponse.paging response))
          [] 1 w)"

text \<open>
  \<open>getEntries\<close> also builds the string \<open>filter\<close> from \<open>userId\<close> and never uses it: the URL
  holds the two time stamps and the page only.
\<close>

definition getEntries ::
  "('i, 'j) runtime \<Rightarrow> ClockodoAPI
     \<Rightarrow> ('j json \<Rightarrow> 'i list + ('z ClockodoEntry_scheme) ClockodoEntriesResponse)
     \<Rightarrow> int \<Rightarrow> string \<Rightarrow> string \<Rightarrow> ('i, 'j) world
     \<Rightarrow> (('i thrown + ('z ClockodoEntry_scheme) list) \<times> ('i, 'j) world) option" where
  "getEntries rt this ClockodoEntriesResponseSchema userId timeSince timeUntil w =
     rethrow rt ''Failed to fetch entries from Clockodo API: ''
       (paginate
          (\<lambda>page. makeRequest rt this (entries_endpoint timeSince timeUntil page)
             ClockodoEntriesResponseSchema)
          (\<lambda>response. filter (\<lambda>entry. users_id entry = userId) (entries response))
          (\<lambda>response. count_pages (ClockodoEntriesResponse.paging response))
          [] 1 w)"

definition getProjects ::
  "('i, 'j) runtime \<Rightarrow> ClockodoAPI
     \<Rightarrow> ('j json \<Rightarrow> 'i list + ('z ClockodoProject_scheme) ClockodoProjectsResponse)
     \<Rightarrow> ('i, 'j) world
     \<Rightarrow> (('i thrown + ('z ClockodoProject_scheme) list) \<times> ('i, 'j) world) option" where
  "getProjects rt this ClockodoProjectsResponseSchema w =
     rethrow rt ''Failed to fetch projects from Clockodo API: ''
       (paginate (\<lambda>page. makeRequest rt this (projects_endpoint page) ClockodoProjectsResponseSchema)
          (\<lambda>response. ClockodoProjectsResponse.data response)
          (\<lambda>response. count_pages (ClockodoProjectsResponse.paging response))
          [] 1 w)"

text \<open>
  What can be observed of a run from outside: its result, and the URLs fetched up to its
  end.
\<close>

definition observed ::
  "(('x + 'a) \<times> ('i, 'j) world) option \<Rightarrow> (('x + 'a) \<times> string list) option" where
  "observed outcome = map_option (\<lambda>(res, w). (res, fetched w)) outcome"

text \<open>
  A backend delivers \<open>v\<close> for an endpoint when it answers the request with a 2xx
  response whose body is JSON, not \<open>null\<close>, that the schema accepts as the value \<open>v\<close>.
\<close>

definition delivers ::
  "('i, 'j) runtime \<Rightarrow> ClockodoAPI \<Rightarrow> string \<Rightarrow> ('j json \<Rightarrow> 'i list + 'r) \<Rightarrow> 'r \<Rightarrow> bool" where
  "delivers rt this endpoint schema v =
     (case fetch rt (fetch_request this (baseUrl this @ endpoint)) of
        Inl error \<Rightarrow> False
      | Inr response \<Rightarrow>
          ok response \<and>
          (case jsonBody response of
             Inl error \<Rightarrow> False
           | Inr JsonNull \<Rightarrow> False
           | Inr body \<Rightarrow> schema body = Inr v))"

text \<open>The lines of the log file, none while the file does not exist.\<close>

definition log_lines :: "('i, 'j) world \<Rightarrow> ('i, 'j) log_line list" where
  "log_lines w = (case logfile w of None \<Rightarrow> [] | Some ls \<Rightarrow> ls)"

text \<open>The line \<open>logRequest\<close> writes for a request of the client: the key is masked.\<close>

definition request_line :: "ClockodoAPI \<Rightarrow> string \<Rightarrow> ('i, 'j) log_line" where
  "request_line this target =
     Line (''>>> REQUEST GET '' @ target)
       (HeadersData [(''Accept'', ''application/json''),
                     (''X-ClockodoApiUser'', ClockodoAPI.email this),
                     (''X-ClockodoApiKey'', ''***''),
                     (''X-Clockodo-External-Application'', ''mcp-ts'')])"

text \<open>\<open>error instanceof z.ZodError\<close>\<close>

fun is_ZodError :: "'i thrown \<Rightarrow> bool" where
  "is_ZodError (ZodError iss) = True"
| "is_ZodError (JsError cls msg) = False"
| "is_ZodError (NonError s) = False"

text \<open>Whether a string holds another as a contiguous part.\<close>

fun starts_with :: "string \<Rightarrow> string \<Rightarrow> bool" where
  "starts_with s [] = True"
| "starts_with [] (c # cs) = False"
| "starts_with (d # ds) (c # cs) = (d = c \<and> starts_with ds cs)"

fun mentions :: "string \<Rightarrow> string \<Rightarrow> bool" where
  "mentions [] part = (part = [])"
| "mentions (d # ds) part = (starts_with (d # ds) part \<or> mentions ds part)"

subsection \<open>Backends for the examples\<close>

text \<open>
  A backend given by a table from URLs to what \<open>fetch\<close> does with them; a URL outside the
  table is answered with 404. A decoded body is \<open>null\<close>, one of the three well-shaped
  responses or something else, and a schema accepts the bodies of its own shape.
\<close>

datatype demo_body =
    UsersJson "ClockodoUser ClockodoUsersResponse"
  | EntriesJson "ClockodoEntry ClockodoEntriesResponse"
  | ProjectsJson "ClockodoProject ClockodoProjectsResponse"
  | OtherJson

definition demo_users_schema ::
  "demo_body json \<Rightarrow> string list + ClockodoUser ClockodoUsersResponse" where
  "demo_users_schema body =
     (case body of
        JsonValue (UsersJson r) \<Rightarrow> Inr r
      | JsonNull \<Rightarrow> Inl [''Expected object, received null'']
      | _ \<Rightarrow> Inl [''data: Required'', ''paging: Required''])"

definition demo_entries_schema ::
  "demo_body json \<Rightarrow> string list + ClockodoEntry ClockodoEntriesResponse" where
  "demo_entries_schema body =
     (case body of
        JsonValue (EntriesJson r) \<Rightarrow> Inr r
      | JsonNull \<Rightarrow> Inl [''Expected object, received null'']
      | _ \<Rightarrow> Inl [''entries: Required'', ''paging: Required''])"

definition demo_projects_schema ::
  "demo_body json \<Rightarrow> string list + ClockodoProject ClockodoProjectsResponse" where
  "demo_projects_schema body =
     (case body of
        JsonValue (ProjectsJson r) \<Rightarrow> Inr r
      | JsonNull \<Rightarrow> Inl [''Expected object, received null'']
      | _ \<Rightarrow> Inl [''data: Required'', ''paging: Required''])"

definition not_found :: "string thrown + (string, demo_body) Response" where
  "not_found =
     Inr \<lparr>status = 404, statusText = ''Not Found'', textBody = Inr ''no such page'',
          jsonBody = Inl (JsError ''SyntaxError'' ''Unexpected token'')\<rparr>"

definition success :: "demo_body json \<Rightarrow> string thrown + (string, demo_body) Response" where
  "success body =
     Inr \<lparr>status = 200, statusText = ''OK'', textBody = Inr ''(json)'', jsonBody = Inr body\<rparr>"

definition backend ::
  "(string \<times> (string thrown + (string, demo_body) Response)) list \<Rightarrow> (string, demo_body) runtime" where
  "backend table =
     \<lparr>fetch = (\<lambda>req. case map_of table (url req) of None \<Rightarrow> not_found | Some answer \<Rightarrow> answer),
      zodMessage = (\<lambda>iss. concat (map (\<lambda>i. ''['' @ i @ '']'') iss))\<rparr>"

definition demo_env :: "string \<Rightarrow> string option" where
  "demo_env = [''CLOCKODO_EMAIL'' \<mapsto> ''me@example.com'', ''CLOCKODO_API_KEY'' \<mapsto> ''secret'']"

definition demo_client :: ClockodoAPI where
  "demo_client =
     \<lparr>ClockodoAPI.email = ''me@example.com'', apiKey = ''secret'', baseUrl = ''https://my.clockodo.com/api''\<rparr>"

definition w_init :: "(string, demo_body) world" where
  "w_init = \<lparr>fetched = [], logfile = None\<rparr>"

definition envelope :: "int \<Rightarrow> int \<Rightarrow> Paging" where
  "envelope cur cnt = \<lparr>items_per_page = 2, current_page = cur, count_pages = cnt, count_items = 3\<rparr>"

definition user :: "int \<Rightarrow> string \<Rightarrow> ClockodoUser" where
  "user i n = \<lparr>ClockodoUser.id = i, name = n, email = n @ ''@example.com'', active = True\<rparr>"

definition entry :: "int \<Rightarrow> int \<Rightarrow> ClockodoEntry" where
  "entry i u =
     \<lparr>ClockodoEntry.id = i, customers_id = 3, projects_id = None, users_id = u, billable = 1,
      entry_text = Some ''work'', time_since = ''2025-09-01T08:00:00Z'',
      time_until = ''2025-09-01T09:00:00Z'', time_insert = ''2025-09-01T09:00:01Z'',
      time_last_change = ''2025-09-01T09:00:01Z''\<rparr>"

definition project :: "int \<Rightarrow> string \<Rightarrow> ClockodoProject" where
  "project i n =
     \<lparr>ClockodoProject.id = i, customers_id = 3, name = n, number = None, active = True,
      billable_default = True, completed = False, completed_at = None, test_data = False,
      count_subprojects = 0\<rparr>"

definition users_url :: "string \<Rightarrow> string" where
  "users_url p = ''https://my.clockodo.com/api/v3/users?page='' @ p"

definition entries_url :: "string \<Rightarrow> string" where
  "entries_url p =
     ''https://my.clockodo.com/api/v2/entries?time_since=2025-09-01T00:00:00Z&time_until=2025-09-30T23:59:59Z&page='' @ p"

definition projects_url :: "string \<Rightarrow> string" where
  "projects_url p = ''https://my.clockodo.com/api/v4/projects?page='' @ p"

text \<open>Two pages of each collection, every envelope with \<open>count_pages = 2\<close>.\<close>

definition users_page :: "int \<Rightarrow> ClockodoUser ClockodoUsersResponse" where
  "users_page p =
     (if p = 1 then \<lparr>ClockodoUsersResponse.data = [user 1 ''alice'', user 2 ''bob''], paging = envelope 1 2\<rparr>
      else \<lparr>ClockodoUsersResponse.data = [user 3 ''carol''], paging = envelope p 2\<rparr>)"

definition entries_page :: "int \<Rightarrow> ClockodoEntry ClockodoEntriesResponse" where
  "entries_page p =
     (if p = 1 then \<lparr>ClockodoEntriesResponse.entries = [entry 11 7, entry 12 8], paging = envelope 1 2\<rparr>
      else \<lparr>ClockodoEntriesResponse.entries = [entry 13 7], paging = envelope p 2\<rparr>)"

definition projects_page :: "int \<Rightarrow> ClockodoProject ClockodoProjectsResponse" where
  "projects_page p =
     (if p = 1 then \<lparr>ClockodoProjectsResponse.data = [project 21 ''site'', project 22 ''shop''], paging = envelope 1 2\<rparr>
      else \<lparr>ClockodoProjectsResponse.data = [project 23 ''app''], paging = envelope p 2\<rparr>)"

definition two_pages :: "(string \<times> (string thrown + (string, demo_body) Response)) list" where
  "two_pages =
     [(users_url ''1'', success (JsonValue (UsersJson (users_page 1)))),
      (users_url ''2'', success (JsonValue (UsersJson (users_page 2)))),
      (entries_url ''1'', success (JsonValue (EntriesJson (entries_page 1)))),
      (entries_url ''2'', success (JsonValue (EntriesJson (entries_page 2)))),
      (projects_url ''1'', success (JsonValue (ProjectsJson (projects_page 1)))),
      (projects_url ''2'', success (JsonValue (ProjectsJson (projects_page 2))))]"

text \<open>
  The first page of each collection as above; the second page of the users is answered
  with 500, the fetch of the second page of the entries is rejected, and the second page of
  the projects has a body of the wrong shape.
\<close>

definition broken_second_page :: "(string \<times> (string thrown + (string, demo_body) Response)) list" where
  "broken_second_page =
     [(users_url ''1'', success (JsonValue (UsersJson (users_page 1)))),
      (users_url ''2'',
         Inr \<lparr>status = 500, statusText = ''Internal Server Error'', textBody = Inr ''down'',
              jsonBody = Inl (JsError ''SyntaxError'' ''Unexpected token'')\<rparr>),
      (entries_url ''1'', success (JsonValue (EntriesJson (entries_page 1)))),
      (entries_url ''2'', Inl (JsError ''TypeError'' ''fetch failed'')),
      (projects_url ''1'', success (JsonValue (ProjectsJson (projects_page 1)))),
      (projects_url ''2'', success (JsonValue OtherJson))]"

text \<open>A 500 whose body cannot be read: the connection is cut after the status line.\<close>

definition cut_body :: "(string \<times> (string thrown + (string, demo_body) Response)) list" where
  "cut_body =
     [(users_url ''1'',
         Inr \<lparr>status = 500, statusText = ''Internal Server Error'',
              textBody = Inl (JsError ''TypeError'' ''terminated''),
              jsonBody = Inl (JsError ''TypeError'' ''terminated'')\<rparr>)]"

text \<open>Both pages of the users report \<open>current_page = 2\<close> of \<open>count_pages = 2\<close>.\<close>

definition skewed :: "(string \<times> (string thrown + (string, demo_body) Response)) list" where
  "skewed =
     [(users_url ''1'',
         success (JsonValue (UsersJson
           \<lparr>ClockodoUsersResponse.data = [user 1 ''alice'', user 2 ''bob''],
            paging = envelope 2 2\<rparr>))),
      (users_url ''2'',
         success (JsonValue (UsersJson
           \<lparr>ClockodoUsersResponse.data = [user 3 ''carol''], paging = envelope 2 2\<rparr>)))]"

text \<open>First pages that declare \<open>count_pages\<close> as 0, 1 and -1.\<close>

definition single_page :: "(string \<times> (string thrown + (string, demo_body) Response)) list" where
  "single_page =
     [(users_url ''1'',
         success (JsonValue (UsersJson
           \<lparr>ClockodoUsersResponse.data = [user 1 ''alice'', user 2 ''bob''],
            paging = envelope 1 0\<rparr>))),
      (entries_url ''1'',
         success (JsonValue (EntriesJson
           \<lparr>ClockodoEntriesResponse.entries = [entry 11 7, entry 12 8],
            paging = envelope 1 1\<rparr>))),
      (projects_url ''1'',
         success (JsonValue (ProjectsJson
           \<lparr>ClockodoProjectsResponse.data = [project 21 ''site''],
            paging = envelope 1 (- 1)\<rparr>)))]"

text \<open>The first page of the users is answered with 200 and the JSON body \<open>null\<close>.\<close>

definition null_body :: "(string \<times> (string thrown + (string, demo_body) Response)) list" where
  "null_body = [(users_url ''1'', success JsonNull)]"

text \<open>
  The \<open>fetch\<close> of Node builds the headers of a request before it contacts any backend:
  it strips the white space at both ends of every header value and rejects, with a
  TypeError whose message quotes the value, a value that still holds a line feed, a
  carriage return or a NUL. \<open>header_checking\<close> puts this check in front of a backend.
\<close>

definition http_whitespace :: "char \<Rightarrow> bool" where
  "http_whitespace c = (c = CHR 0x09 \<or> c = CHR 0x0A \<or> c = CHR 0x0D \<or> c = CHR 0x20)"

definition normalize_header_value :: "string \<Rightarrow> string" where
  "normalize_header_value v = rev (dropWhile http_whitespace (rev (dropWhile http_whitespace v)))"

definition valid_header_value :: "string \<Rightarrow> bool" where
  "valid_header_value v = (CHR 0x00 \<notin> set v \<and> CHR 0x0A \<notin> set v \<and> CHR 0x0D \<notin> set v)"

definition invalid_header_message :: "string \<Rightarrow> string" where
  "invalid_header_message v =
     ''Headers.append: '' @ [CHR 0x22] @ v @ [CHR 0x22] @ '' is an invalid header value.''"

definition header_checking :: "(string, demo_body) runtime \<Rightarrow> (string, demo_body) runtime" where
  "header_checking rt =
     rt\<lparr>fetch := (\<lambda>req.
        case filter (\<lambda>v. \<not> valid_header_value v)
               (map (\<lambda>(n, v). normalize_header_value v) (headers req)) of
          [] \<Rightarrow> fetch rt req
        | v # vs \<Rightarrow> Inl (JsError ''TypeError'' (invalid_header_message v)))\<rparr>"

text \<open>Two API keys that hold a line feed between their characters.\<close>

definition key_with_line_feed :: string where
  "key_with_line_feed = ''sec'' @ [CHR 0x0A] @ ''ret''"

definition other_key_with_line_feed :: string where
  "other_key_with_line_feed = ''oth'' @ [CHR 0x0A] @ ''er''"

section \<open>Properties\<close>

subsection \<open>Rendering of numbers, the log and the list of fetched URLs\<close>

lemma show_int_1: "show_int 1 = ''1''" by (simp add: show_int_def)
lemma show_int_2: "show_int 2 = ''2''" by (simp add: show_int_def)
lemma show_int_500: "show_int 500 = ''500''" by (simp add: show_int_def)

lemma fetched_Logger_log: "fetched (Logger_log message dat w) = fetched w"
  by (simp add: Logger_log_def)

lemma fetched_makeRequest_try:
  "fetched (snd (makeRequest_try rt this target schema w)) = fetched w @ [target]"
  by (simp add: makeRequest_try_def Let_def fetched_Logger_log Logger_logResponse_def
      Logger_logError_def split: sum.split json.split)

lemma fetched_makeRequest:
  "fetched (snd (makeRequest rt this endpoint schema w)) = fetched w @ [baseUrl this @ endpoint]"
proof -
  let ?w1 = "Logger_logRequest ''GET'' (baseUrl this @ endpoint)
     [(''Accept'', ''application/json''), (''X-ClockodoApiUser'', ClockodoAPI.email this),
      (''X-ClockodoApiKey'', ''***''), (''X-Clockodo-External-Application'', ''mcp-ts'')] w"
  obtain r w' where t: "makeRequest_try rt this (baseUrl this @ endpoint) schema ?w1 = (r, w')"
    by (cases "makeRequest_try rt this (baseUrl this @ endpoint) schema ?w1") 
  have "fetched w' = fetched ?w1 @ [baseUrl this @ endpoint]"
    using fetched_makeRequest_try[of rt this "baseUrl this @ endpoint" schema ?w1] t by simp
  then have f: "fetched w' = fetched w @ [baseUrl this @ endpoint]"
    by (simp add: Logger_logRequest_def fetched_Logger_log)
  show ?thesis
    by (simp add: makeRequest_def Let_def t f fetched_Logger_log Logger_logError_def
        split: sum.split thrown.split)
qed

lemma fetched_fold:
  assumes "\<And>p w. fetched (snd (request p w)) = fetched w @ [u p]"
  shows "fetched (fold (\<lambda>p w. snd (request p w)) ps w) = fetched w @ map u ps"
  by (induction ps arbitrary: w) (simp_all add: assms)

lemma observed_Some: "observed (Some (res, w)) = Some (res, fetched w)"
  by (simp add: observed_def)

lemma log_lines_Logger_log: "log_lines (Logger_log message dat w) = log_lines w @ [Line message dat]"
  by (simp add: Logger_log_def log_lines_def)

lemma log_lines_fetched_update: "log_lines (w\<lparr>fetched := fs\<rparr>) = log_lines w"
  by (simp add: log_lines_def)

subsection \<open>The pagination loop\<close>

lemma paginate_step:
  assumes "request page w = (Inr response, w')"
  shows "paginate request items pages allItems page w =
     (if page < pages response
      then paginate request items pages (allItems @ items response) (page + 1) w'
      else Some (Inr (allItems @ items response), w'))"
  using assms by (subst paginate.simps) (simp add: Let_def)

lemma paginate_error:
  assumes "request page w = (Inl e, w')"
  shows "paginate request items pages allItems page w = Some (Inl e, w')"
  using assms by (subst paginate.simps) simp

lemma paginate_all:
  assumes "\<And>p w. k \<le> p \<Longrightarrow> p \<le> N \<Longrightarrow> fst (request p w) = Inr (resp p)"
      and "\<And>p. k \<le> p \<Longrightarrow> p \<le> N \<Longrightarrow> pages (resp p) = N"
      and "k \<le> N"
  shows "paginate request items pages acc k w =
     Some (Inr (acc @ concat (map (\<lambda>p. items (resp p)) [k..N])),
           fold (\<lambda>p w. snd (request p w)) [k..N] w)"
  using assms
proof (induction "nat (N - k)" arbitrary: k acc w)
  case 0
  then have kN: "k = N" by simp
  have r: "request N w = (Inr (resp N), snd (request N w))"
    using "0.prems"(1)[of N w] kN by (simp add: prod_eq_iff)
  have c: "pages (resp N) = N" using "0.prems"(2)[of N] kN by simp
  show ?case unfolding kN by (simp add: paginate_step[where request=request and page=N and w=w, OF r] c)
next
  case (Suc n)
  then have lt: "k < N" by simp
  have r: "request k w = (Inr (resp k), snd (request k w))"
    using Suc.prems(1)[of k w] lt by (simp add: prod_eq_iff)
  have c: "pages (resp k) = N" using Suc.prems(2)[of k] lt by simp
  have n: "n = nat (N - (k + 1))" using Suc.hyps(2) by simp
  have ih: "paginate request items pages (acc @ items (resp k)) (k + 1) (snd (request k w)) =
     Some (Inr ((acc @ items (resp k)) @ concat (map (\<lambda>p. items (resp p)) [k + 1..N])),
           fold (\<lambda>p w. snd (request p w)) [k + 1..N] (snd (request k w)))"
    using Suc.hyps(1)[OF n, of "acc @ items (resp k)" "snd (request k w)"] Suc.prems lt by simp
  have u: "[k..N] = k # [k + 1..N]" using lt by (simp add: upto_rec1)
  show ?case by (simp add: paginate_step[where request=request and page=k and w=w, OF r] c lt ih u)
qed

lemma paginate_fails:
  assumes "\<And>p w. j \<le> p \<Longrightarrow> p < k \<Longrightarrow> fst (request p w) = Inr (resp p)"
      and "\<And>p. j \<le> p \<Longrightarrow> p < k \<Longrightarrow> p < pages (resp p)"
      and "\<And>w. fst (request k w) = Inl e"
      and "j \<le> k"
  shows "paginate request items pages acc j w =
     Some (Inl e, fold (\<lambda>p w. snd (request p w)) [j..k] w)"
  using assms
proof (induction "nat (k - j)" arbitrary: j acc w)
  case 0
  then have jk: "j = k" by simp
  have r: "request k w = (Inl e, snd (request k w))"
    using "0.prems"(3)[of w] by (simp add: prod_eq_iff)
  show ?case unfolding jk by (simp add: paginate_error[where request=request and page=k and w=w, OF r])
next
  case (Suc n)
  then have lt: "j < k" by simp
  have r: "request j w = (Inr (resp j), snd (request j w))"
    using Suc.prems(1)[of j w] lt by (simp add: prod_eq_iff)
  have c: "j < pages (resp j)" using Suc.prems(2)[of j] lt by simp
  have n: "n = nat (k - (j + 1))" using Suc.hyps(2) by simp
  have ih: "paginate request items pages (acc @ items (resp j)) (j + 1) (snd (request j w)) =
     Some (Inl e, fold (\<lambda>p w. snd (request p w)) [j + 1..k] (snd (request j w)))"
    using Suc.hyps(1)[OF n, of "acc @ items (resp j)" "snd (request j w)"] Suc.prems lt by simp
  have u: "[j..k] = j # [j + 1..k]" using lt by (simp add: upto_rec1)
  show ?case by (simp add: paginate_step[where request=request and page=j and w=w, OF r] c ih u)
qed

subsection \<open>The outcomes of one request\<close>

lemma makeRequest_delivers:
  assumes "delivers rt this endpoint schema v"
  shows "fst (makeRequest rt this endpoint schema w) = Inr v"
  using assms
  by (auto simp: delivers_def makeRequest_def makeRequest_try_def Let_def
      split: sum.splits json.splits)

subsection \<open>Construction\<close>

text \<open>
  C7. Construction succeeds, with the two values as the credentials of the client, when both
  environment variables are set and not empty; when either is missing or empty it throws
  its configuration error and there is no client. The check is the constructor's alone: a
  request never stops before its fetch, whatever the credentials of the client.
\<close>

theorem C7_construction:
  "(env ''CLOCKODO_EMAIL'' = Some e \<and> e \<noteq> [] \<and> env ''CLOCKODO_API_KEY'' = Some k \<and> k \<noteq> [] \<longrightarrow>
      fst (ClockodoAPI_new env w) =
        Inr \<lparr>ClockodoAPI.email = e, apiKey = k, baseUrl = ''https://my.clockodo.com/api''\<rparr>)
   \<and> (env ''CLOCKODO_EMAIL'' \<in> {None, Some []} \<or> env ''CLOCKODO_API_KEY'' \<in> {None, Some []} \<longrightarrow>
      fst (ClockodoAPI_new env w) =
        Inl (JsError ''Error''
          ''CLOCKODO_EMAIL and CLOCKODO_API_KEY environment variables are required''))
   \<and> fetched (snd (makeRequest rt this endpoint schema w')) = fetched w' @ [baseUrl this @ endpoint]"
proof (intro conjI impI)
  assume "env ''CLOCKODO_EMAIL'' = Some e \<and> e \<noteq> [] \<and> env ''CLOCKODO_API_KEY'' = Some k \<and> k \<noteq> []"
  then show "fst (ClockodoAPI_new env w) =
      Inr \<lparr>ClockodoAPI.email = e, apiKey = k, baseUrl = ''https://my.clockodo.com/api''\<rparr>"
    by (simp add: ClockodoAPI_new_def or_empty_def Let_def)
next
  assume "env ''CLOCKODO_EMAIL'' \<in> {None, Some []} \<or> env ''CLOCKODO_API_KEY'' \<in> {None, Some []}"
  then have "or_empty (env ''CLOCKODO_EMAIL'') = [] \<or> or_empty (env ''CLOCKODO_API_KEY'') = []"
    by (auto simp: or_empty_def)
  then show "fst (ClockodoAPI_new env w) =
      Inl (JsError ''Error''
        ''CLOCKODO_EMAIL and CLOCKODO_API_KEY environment variables are required'')"
    by (auto simp: ClockodoAPI_new_def Let_def)
next
  show "fetched (snd (makeRequest rt this endpoint schema w')) = fetched w' @ [baseUrl this @ endpoint]"
    by (rule fetched_makeRequest)
qed

theorem C7_construction_witness:
  "fst (ClockodoAPI_new demo_env w_init) = Inr demo_client
   \<and> fst (ClockodoAPI_new (demo_env(''CLOCKODO_API_KEY'' := None)) w_init) =
       Inl (JsError ''Error''
         ''CLOCKODO_EMAIL and CLOCKODO_API_KEY environment variables are required'')
   \<and> fst (ClockodoAPI_new (demo_env(''CLOCKODO_EMAIL'' \<mapsto> [])) w_init) =
       Inl (JsError ''Error''
         ''CLOCKODO_EMAIL and CLOCKODO_API_KEY environment variables are required'')"
proof -
  have a: "demo_env ''CLOCKODO_EMAIL'' = Some ''me@example.com'' \<and> ''me@example.com'' \<noteq> [] \<and>
           demo_env ''CLOCKODO_API_KEY'' = Some ''secret'' \<and> ''secret'' \<noteq> []"
    by (simp add: demo_env_def)
  have b: "(demo_env(''CLOCKODO_API_KEY'' := None)) ''CLOCKODO_EMAIL'' \<in> {None, Some []} \<or>
           (demo_env(''CLOCKODO_API_KEY'' := None)) ''CLOCKODO_API_KEY'' \<in> {None, Some []}"
    by simp
  have c: "(demo_env(''CLOCKODO_EMAIL'' \<mapsto> [])) ''CLOCKODO_EMAIL'' \<in> {None, Some []} \<or>
           (demo_env(''CLOCKODO_EMAIL'' \<mapsto> [])) ''CLOCKODO_API_KEY'' \<in> {None, Some []}"
    by simp
  from C7_construction[of demo_env "''me@example.com''" "''secret''" w_init "backend two_pages" demo_client "[]" demo_users_schema w_init] a
  have 1: "fst (ClockodoAPI_new demo_env w_init) = Inr demo_client"
    by (simp add: demo_client_def)
  from C7_construction[of "demo_env(''CLOCKODO_API_KEY'' := None)" "[]" "[]" w_init "backend two_pages" demo_client "[]" demo_users_schema w_init] b
  have 2: "fst (ClockodoAPI_new (demo_env(''CLOCKODO_API_KEY'' := None)) w_init) =
       Inl (JsError ''Error''
         ''CLOCKODO_EMAIL and CLOCKODO_API_KEY environment variables are required'')"
    by blast
  from C7_construction[of "demo_env(''CLOCKODO_EMAIL'' \<mapsto> [])" "[]" "[]" w_init "backend two_pages" demo_client "[]" demo_users_schema w_init] c
  have 3: "fst (ClockodoAPI_new (demo_env(''CLOCKODO_EMAIL'' \<mapsto> [])) w_init) =
       Inl (JsError ''Error''
         ''CLOCKODO_EMAIL and CLOCKODO_API_KEY environment variables are required'')"
    by blast
  from 1 2 3 show ?thesis by blast
qed

subsection \<open>A response outside 2xx\<close>

lemma makeRequest_http_error:
  assumes "fetch rt (fetch_request this (baseUrl this @ endpoint)) = Inr response"
      and "\<not> ok response"
      and "textBody response = Inr errorText"
  shows "fst (makeRequest rt this endpoint schema w) =
           Inl (JsError ''Error'' (''HTTP '' @ show_int (status response) @ '': '' @ statusText response))"
    and "log_lines (snd (makeRequest rt this endpoint schema w)) =
           log_lines w @
           [request_line this (baseUrl this @ endpoint),
            Line (''<<< RESPONSE '' @ show_int (status response) @ '' '' @ statusText response) NoData,
            Line (''!!! ERROR: HTTP '' @ show_int (status response) @ '': '' @ statusText response)
              (HttpErrorData (baseUrl this @ endpoint) errorText),
            Line ''!!! ERROR: Request failed''
              (RequestFailedData
                 (''HTTP '' @ show_int (status response) @ '': '' @ statusText response)
                 (baseUrl this @ endpoint))]"
  using assms
  by (simp_all add: makeRequest_def makeRequest_try_def Let_def request_line_def
      Logger_logRequest_def Logger_logResponse_def Logger_logError_def log_lines_Logger_log
      log_lines_fetched_update)

lemma makeRequest_never_Inr_unless_ok:
  assumes "fetch rt (fetch_request this (baseUrl this @ endpoint)) = Inr response"
      and "\<not> ok response"
  shows "fst (makeRequest rt this endpoint schema w) \<noteq> Inr v"
  using assms
  by (auto simp: makeRequest_def makeRequest_try_def Let_def
      split: sum.splits thrown.splits json.splits)

text \<open>
  A response whose status is not 2xx and whose body text can be read makes the request
  throw an Error with the message "HTTP status: statusText"; the body text goes to the log
  alone, in the line of the HTTP error. No response outside 2xx gives a validated value,
  also when its body cannot be read.
\<close>

lemma http_error_readable_body:
  assumes "fetch rt (fetch_request this (baseUrl this @ endpoint)) = Inr response"
      and "\<not> ok response"
  shows "(\<forall>v. fst (makeRequest rt this endpoint schema w) \<noteq> Inr v)
    \<and> (textBody response = Inr errorText \<longrightarrow>
         fst (makeRequest rt this endpoint schema w) =
           Inl (JsError ''Error''
                  (''HTTP '' @ show_int (status response) @ '': '' @ statusText response))
         \<and> log_lines (snd (makeRequest rt this endpoint schema w)) =
           log_lines w @
           [request_line this (baseUrl this @ endpoint),
            Line (''<<< RESPONSE '' @ show_int (status response) @ '' '' @ statusText response) NoData,
            Line (''!!! ERROR: HTTP '' @ show_int (status response) @ '': '' @ statusText response)
              (HttpErrorData (baseUrl this @ endpoint) errorText),
            Line ''!!! ERROR: Request failed''
              (RequestFailedData
                 (''HTTP '' @ show_int (status response) @ '': '' @ statusText response)
                 (baseUrl this @ endpoint))])"
proof (intro conjI allI impI)
  fix v show "fst (makeRequest rt this endpoint schema w) \<noteq> Inr v"
    by (rule makeRequest_never_Inr_unless_ok[OF assms])
next
  assume t: "textBody response = Inr errorText"
  show "fst (makeRequest rt this endpoint schema w) =
           Inl (JsError ''Error''
                  (''HTTP '' @ show_int (status response) @ '': '' @ statusText response))"
    by (rule makeRequest_http_error(1)[OF assms t])
next
  assume t: "textBody response = Inr errorText"
  show "log_lines (snd (makeRequest rt this endpoint schema w)) =
           log_lines w @
           [request_line this (baseUrl this @ endpoint),
            Line (''<<< RESPONSE '' @ show_int (status response) @ '' '' @ statusText response) NoData,
            Line (''!!! ERROR: HTTP '' @ show_int (status response) @ '': '' @ statusText response)
              (HttpErrorData (baseUrl this @ endpoint) errorText),
            Line ''!!! ERROR: Request failed''
              (RequestFailedData
                 (''HTTP '' @ show_int (status response) @ '': '' @ statusText response)
                 (baseUrl this @ endpoint))]"
    by (rule makeRequest_http_error(2)[OF assms t])
qed

lemma broken_users_2:
  "fetch (backend broken_second_page) (fetch_request demo_client (baseUrl demo_client @ users_endpoint 2)) =
     Inr \<lparr>status = 500, statusText = ''Internal Server Error'', textBody = Inr ''down'',
          jsonBody = Inl (JsError ''SyntaxError'' ''Unexpected token'')\<rparr>"
  by (simp add: backend_def broken_second_page_def fetch_request_def demo_client_def
      users_endpoint_def show_int_2 users_url_def entries_url_def projects_url_def)


text \<open>
  C5. At a response with status 500 whose body cannot be read (\<open>response.text()\<close>
  rejects), the request does not fail with the error "HTTP 500: Internal Server Error": the
  body is read for the log before that error is thrown, so the request throws the error of
  the read, which holds neither the status code nor the status text. The log has no line
  of the HTTP error, and \<open>getUsers\<close> fails with the message of the read error.
\<close>

theorem C5_unreadable_body:
  "fetch (backend cut_body) (fetch_request demo_client (baseUrl demo_client @ users_endpoint 1)) =
     Inr \<lparr>status = 500, statusText = ''Internal Server Error'',
          textBody = Inl (JsError ''TypeError'' ''terminated''),
          jsonBody = Inl (JsError ''TypeError'' ''terminated'')\<rparr>
   \<and> \<not> ok \<lparr>status = 500, statusText = ''Internal Server Error'',
          textBody = Inl (JsError ''TypeError'' ''terminated'') :: string thrown + string,
          jsonBody = Inl (JsError ''TypeError'' ''terminated'') :: string thrown + demo_body json\<rparr>
   \<and> fst (makeRequest (backend cut_body) demo_client (users_endpoint 1) demo_users_schema w_init) =
       Inl (JsError ''TypeError'' ''terminated'')
   \<and> \<not> mentions ''terminated'' ''500''
   \<and> \<not> mentions ''terminated'' ''Internal Server Error''
   \<and> log_lines (snd (makeRequest (backend cut_body) demo_client (users_endpoint 1)
         demo_users_schema w_init)) =
       [request_line demo_client (users_url ''1''),
        Line ''<<< RESPONSE 500 Internal Server Error'' NoData,
        Line ''!!! ERROR: Request failed'' (RequestFailedData ''terminated'' (users_url ''1''))]
   \<and> observed (getUsers (backend cut_body) demo_client demo_users_schema w_init) =
       Some (Inl (JsError ''Error'' ''Failed to fetch users from Clockodo API: terminated''),
             [users_url ''1''])"
proof -
  have f: "fetch (backend cut_body)
      (fetch_request demo_client (baseUrl demo_client @ users_endpoint 1)) =
     Inr \<lparr>status = 500, statusText = ''Internal Server Error'',
          textBody = Inl (JsError ''TypeError'' ''terminated''),
          jsonBody = Inl (JsError ''TypeError'' ''terminated'')\<rparr>"
    by (simp add: backend_def cut_body_def fetch_request_def demo_client_def users_endpoint_def
        show_int_1 users_url_def)
  have n: "\<not> ok \<lparr>status = 500, statusText = ''Internal Server Error'',
          textBody = Inl (JsError ''TypeError'' ''terminated'') :: string thrown + string,
          jsonBody = Inl (JsError ''TypeError'' ''terminated'') :: string thrown + demo_body json\<rparr>"
    by (simp add: ok_def)
  have u: "baseUrl demo_client @ users_endpoint 1 = users_url ''1''"
    by (simp add: demo_client_def users_endpoint_def users_url_def show_int_1)
  have m: "makeRequest (backend cut_body) demo_client (users_endpoint 1) demo_users_schema w =
      (Inl (JsError ''TypeError'' ''terminated''),
       Logger_logError ''Request failed'' (RequestFailedData ''terminated'' (users_url ''1''))
         (Logger_logResponse 500 ''Internal Server Error'' NoData
           ((Logger_logRequest ''GET'' (users_url ''1'')
               [(''Accept'', ''application/json''),
                (''X-ClockodoApiUser'', ClockodoAPI.email demo_client),
                (''X-ClockodoApiKey'', ''***''),
                (''X-Clockodo-External-Application'', ''mcp-ts'')] w)
            \<lparr>fetched := fetched w @ [users_url ''1'']\<rparr>)))" for w
    using f by (simp add: makeRequest_def makeRequest_try_def Let_def ok_def u
        Logger_logRequest_def fetched_Logger_log)
  have r: "fst (makeRequest (backend cut_body) demo_client (users_endpoint 1) demo_users_schema w) =
      Inl (JsError ''TypeError'' ''terminated'')" for w
    by (simp add: m)
  have l: "log_lines (snd (makeRequest (backend cut_body) demo_client (users_endpoint 1)
         demo_users_schema w_init)) =
       [request_line demo_client (users_url ''1''),
        Line ''<<< RESPONSE 500 Internal Server Error'' NoData,
        Line ''!!! ERROR: Request failed'' (RequestFailedData ''terminated'' (users_url ''1''))]"
    by (simp only: m snd_conv Logger_logError_def Logger_logResponse_def Logger_logRequest_def
          log_lines_Logger_log log_lines_fetched_update)
       (simp add: request_line_def show_int_500 log_lines_def w_init_def)
  have p: "paginate
      (\<lambda>p. makeRequest (backend cut_body) demo_client (users_endpoint p) demo_users_schema)
      ClockodoUsersResponse.data (\<lambda>response. count_pages (ClockodoUsersResponse.paging response))
      [] 1 w_init =
     Some (Inl (JsError ''TypeError'' ''terminated''),
           snd (makeRequest (backend cut_body) demo_client (users_endpoint 1) demo_users_schema
                  w_init))"
    by (rule paginate_error[where request="\<lambda>p. makeRequest (backend cut_body) demo_client
          (users_endpoint p) demo_users_schema" and page=1 and w=w_init])
       (simp add: m)
  have g: "observed (getUsers (backend cut_body) demo_client demo_users_schema w_init) =
       Some (Inl (JsError ''Error'' ''Failed to fetch users from Clockodo API: terminated''),
             [users_url ''1''])"
    unfolding getUsers_def
    by (simp only: p rethrow_def option.case prod.case sum.case observed_Some fetched_makeRequest u)
       (simp add: w_init_def)
  have m1: "\<not> mentions ''terminated'' ''500''" by simp
  have m2: "\<not> mentions ''terminated'' ''Internal Server Error''" by simp
  show ?thesis by (intro conjI) (rule f, rule n, rule r, rule m1, rule m2, rule l, rule g)
qed

subsection \<open>A body of the wrong shape, the body null, and a failing transport\<close>

lemma makeRequest_invalid:
  assumes "fetch rt (fetch_request this (baseUrl this @ endpoint)) = Inr response"
      and "ok response"
      and "jsonBody response = Inr (JsonValue body)"
      and "schema (JsonValue body) = Inl iss"
  shows "fst (makeRequest rt this endpoint schema w) =
           Inl (JsError ''Error'' (''Invalid API response format: '' @ zodMessage rt iss))"
    and "log_lines (snd (makeRequest rt this endpoint schema w)) =
           log_lines w @
           [request_line this (baseUrl this @ endpoint),
            Line (''<<< RESPONSE '' @ show_int (status response) @ '' '' @ statusText response) NoData,
            Line ''Response data received'' (ReceivedData (JsonValue body)),
            Line ''!!! ERROR: Zod validation error'' (ZodErrorData (zodMessage rt iss) iss)]"
  using assms
  by (simp_all add: makeRequest_def makeRequest_try_def Let_def request_line_def
      Logger_logRequest_def Logger_logResponse_def Logger_logError_def log_lines_Logger_log
      log_lines_fetched_update)

lemma paginate_request_fails:
  assumes "fst (request page w) = Inl e"
  shows "paginate request items pages acc page w = Some (Inl e, snd (request page w))"
proof -
  have r: "request page w = (Inl e, snd (request page w))"
    using assms by (simp add: prod_eq_iff)
  show ?thesis by (rule paginate_error[where request=request and page=page and w=w, OF r])
qed

lemma show_int_200: "show_int 200 = ''200''" by (simp add: show_int_def)

lemma broken_projects_2:
  "fetch (backend broken_second_page)
     (fetch_request demo_client (baseUrl demo_client @ projects_endpoint 2)) = success (JsonValue OtherJson)"
  by (simp add: backend_def broken_second_page_def fetch_request_def demo_client_def
      projects_endpoint_def show_int_2 users_url_def entries_url_def projects_url_def)

text \<open>
  C6. At a 200 response whose JSON body is \<open>null\<close>, a body the schema rejects, the
  request does not end with the validation error: it throws the TypeError of
  \<open>Object.keys(null)\<close>, raised while the log entry "Response data received" is built. The
  schema is not applied, the log holds no line of a validation error, and \<open>getUsers\<close>
  fails with the message of the TypeError.
\<close>

theorem C6_null_body:
  "fetch (backend null_body) (fetch_request demo_client (baseUrl demo_client @ users_endpoint 1)) =
     success JsonNull
   \<and> demo_users_schema JsonNull = Inl [''Expected object, received null'']
   \<and> fst (makeRequest (backend null_body) demo_client (users_endpoint 1) demo_users_schema w_init) =
       Inl (JsError ''TypeError'' ''Cannot convert undefined or null to object'')
   \<and> log_lines (snd (makeRequest (backend null_body) demo_client (users_endpoint 1)
         demo_users_schema w_init)) =
       [request_line demo_client (users_url ''1''),
        Line ''<<< RESPONSE 200 OK'' NoData,
        Line ''!!! ERROR: Request failed''
          (RequestFailedData ''Cannot convert undefined or null to object'' (users_url ''1''))]
   \<and> observed (getUsers (backend null_body) demo_client demo_users_schema w_init) =
       Some (Inl (JsError ''Error''
               ''Failed to fetch users from Clockodo API: Cannot convert undefined or null to object''),
             [users_url ''1''])"
proof -
  have f: "fetch (backend null_body)
      (fetch_request demo_client (baseUrl demo_client @ users_endpoint 1)) = success JsonNull"
    by (simp add: backend_def null_body_def fetch_request_def demo_client_def users_endpoint_def
        show_int_1 users_url_def)
  have s: "demo_users_schema JsonNull = Inl [''Expected object, received null'']"
    by (simp add: demo_users_schema_def)
  have u: "baseUrl demo_client @ users_endpoint 1 = users_url ''1''"
    by (simp add: demo_client_def users_endpoint_def users_url_def show_int_1)
  have m: "makeRequest (backend null_body) demo_client (users_endpoint 1) demo_users_schema w =
      (Inl (JsError ''TypeError'' ''Cannot convert undefined or null to object''),
       Logger_logError ''Request failed''
         (RequestFailedData ''Cannot convert undefined or null to object'' (users_url ''1''))
         (Logger_logResponse 200 ''OK'' NoData
           ((Logger_logRequest ''GET'' (users_url ''1'')
               [(''Accept'', ''application/json''),
                (''X-ClockodoApiUser'', ClockodoAPI.email demo_client),
                (''X-ClockodoApiKey'', ''***''),
                (''X-Clockodo-External-Application'', ''mcp-ts'')] w)
            \<lparr>fetched := fetched w @ [users_url ''1'']\<rparr>)))" for w
    using f by (simp add: makeRequest_def makeRequest_try_def Let_def success_def ok_def u
        Logger_logRequest_def fetched_Logger_log)
  have r: "fst (makeRequest (backend null_body) demo_client (users_endpoint 1) demo_users_schema w) =
      Inl (JsError ''TypeError'' ''Cannot convert undefined or null to object'')" for w
    by (simp add: m)
  have l: "log_lines (snd (makeRequest (backend null_body) demo_client (users_endpoint 1)
         demo_users_schema w_init)) =
       [request_line demo_client (users_url ''1''),
        Line ''<<< RESPONSE 200 OK'' NoData,
        Line ''!!! ERROR: Request failed''
          (RequestFailedData ''Cannot convert undefined or null to object'' (users_url ''1''))]"
    by (simp only: m snd_conv Logger_logError_def Logger_logResponse_def Logger_logRequest_def
          log_lines_Logger_log log_lines_fetched_update)
       (simp add: request_line_def show_int_200 log_lines_def w_init_def)
  have p: "paginate
      (\<lambda>p. makeRequest (backend null_body) demo_client (users_endpoint p) demo_users_schema)
      ClockodoUsersResponse.data (\<lambda>response. count_pages (ClockodoUsersResponse.paging response))
      [] 1 w_init =
     Some (Inl (JsError ''TypeError'' ''Cannot convert undefined or null to object''),
           snd (makeRequest (backend null_body) demo_client (users_endpoint 1) demo_users_schema
                  w_init))"
    by (rule paginate_request_fails[where request="\<lambda>p. makeRequest (backend null_body) demo_client
          (users_endpoint p) demo_users_schema" and page=1, OF r])
  have g: "observed (getUsers (backend null_body) demo_client demo_users_schema w_init) =
       Some (Inl (JsError ''Error''
               ''Failed to fetch users from Clockodo API: Cannot convert undefined or null to object''),
             [users_url ''1''])"
    unfolding getUsers_def
    by (simp only: p rethrow_def option.case prod.case sum.case observed_Some fetched_makeRequest u)
       (simp add: w_init_def)
  show ?thesis by (intro conjI) (rule f, rule s, rule r, rule l, rule g)
qed


lemma broken_entries_2:
  "fetch (backend broken_second_page)
     (fetch_request demo_client
        (baseUrl demo_client @
         entries_endpoint ''2025-09-01T00:00:00Z'' ''2025-09-30T23:59:59Z'' 2)) =
     Inl (JsError ''TypeError'' ''fetch failed'')"
  by (simp add: backend_def broken_second_page_def fetch_request_def demo_client_def
      entries_endpoint_def show_int_2 users_url_def entries_url_def projects_url_def)



subsection \<open>Retrieval over all pages\<close>

lemma retrieve_pages:
  assumes "1 \<le> N"
      and "\<And>p. 1 \<le> p \<Longrightarrow> p \<le> N \<Longrightarrow> delivers rt this (ep p) schema (resp p)"
      and "\<And>p. 1 \<le> p \<Longrightarrow> p \<le> N \<Longrightarrow> pages (resp p) = N"
  shows "rethrow rt prefix (paginate (\<lambda>p. makeRequest rt this (ep p) schema) items pages [] 1 w) =
           Some (Inr (concat (map (\<lambda>p. items (resp p)) [1..N])),
                 fold (\<lambda>p w. snd (makeRequest rt this (ep p) schema w)) [1..N] w)"
proof -
  have d: "\<And>p w. 1 \<le> p \<Longrightarrow> p \<le> N \<Longrightarrow> fst (makeRequest rt this (ep p) schema w) = Inr (resp p)"
    using assms(2) by (rule makeRequest_delivers)
  have "paginate (\<lambda>p. makeRequest rt this (ep p) schema) items pages [] 1 w =
           Some (Inr ([] @ concat (map (\<lambda>p. items (resp p)) [1..N])),
                 fold (\<lambda>p w. snd (makeRequest rt this (ep p) schema w)) [1..N] w)"
    by (rule paginate_all[where request="\<lambda>p. makeRequest rt this (ep p) schema" and resp=resp and k=1
          and N=N and pages=pages, OF d assms(3) assms(1)])
  then show ?thesis by (simp add: rethrow_def)
qed

lemma fetched_fold_makeRequest:
  "fetched (fold (\<lambda>p w. snd (makeRequest rt this (ep p) schema w)) ps w) =
     fetched w @ map (\<lambda>p. baseUrl this @ ep p) ps"
  by (rule fetched_fold[where request="\<lambda>p. makeRequest rt this (ep p) schema"
        and u="\<lambda>p. baseUrl this @ ep p"]) (rule fetched_makeRequest)

lemma retrieve_pages_observed:
  assumes "1 \<le> N"
      and "\<And>p. 1 \<le> p \<Longrightarrow> p \<le> N \<Longrightarrow> delivers rt this (ep p) schema (resp p)"
      and "\<And>p. 1 \<le> p \<Longrightarrow> p \<le> N \<Longrightarrow> pages (resp p) = N"
  shows "observed (rethrow rt prefix
            (paginate (\<lambda>p. makeRequest rt this (ep p) schema) items pages [] 1 w)) =
           Some (Inr (concat (map (\<lambda>p. items (resp p)) [1..N])),
                 fetched w @ map (\<lambda>p. baseUrl this @ ep p) [1..N])"
  by (simp only: retrieve_pages[where resp=resp and pages=pages, OF assms] observed_Some
        fetched_fold_makeRequest)

lemma retrieve_fails:
  assumes "1 \<le> k"
      and "\<And>p. 1 \<le> p \<Longrightarrow> p < k \<Longrightarrow> delivers rt this (ep p) schema (resp p)"
      and "\<And>p. 1 \<le> p \<Longrightarrow> p < k \<Longrightarrow> p < pages (resp p)"
      and "\<And>w. fst (makeRequest rt this (ep k) schema w) = Inl e"
  shows "observed (rethrow rt prefix
            (paginate (\<lambda>p. makeRequest rt this (ep p) schema) items pages [] 1 w)) =
           Some (Inl (JsError ''Error'' (prefix @ error_text rt e)),
                 fetched w @ map (\<lambda>p. baseUrl this @ ep p) [1..k])"
proof -
  have d: "\<And>p w. 1 \<le> p \<Longrightarrow> p < k \<Longrightarrow> fst (makeRequest rt this (ep p) schema w) = Inr (resp p)"
    using assms(2) by (rule makeRequest_delivers)
  have "paginate (\<lambda>p. makeRequest rt this (ep p) schema) items pages [] 1 w =
           Some (Inl e, fold (\<lambda>p w. snd (makeRequest rt this (ep p) schema w)) [1..k] w)"
    by (rule paginate_fails[where request="\<lambda>p. makeRequest rt this (ep p) schema" and resp=resp
          and j=1 and k=k and pages=pages, OF d assms(3) assms(4) assms(1)])
  then show ?thesis
    by (simp only: rethrow_def option.case prod.case sum.case observed_Some fetched_fold_makeRequest)
qed

lemma upto_1_2: "[1..2] = [1, 2::int]"
  by (simp add: upto.simps)

lemma element_1_2: "1 \<le> p \<Longrightarrow> p \<le> 2 \<Longrightarrow> p = 1 \<or> p = (2::int)"
  by arith

lemma two_pages_users:
  assumes "1 \<le> p" and "p \<le> 2"
  shows "delivers (backend two_pages) demo_client (users_endpoint p) demo_users_schema (users_page p)"
  using element_1_2[OF assms]
  by (auto simp: delivers_def backend_def two_pages_def fetch_request_def demo_client_def
      users_endpoint_def show_int_1 show_int_2 users_url_def entries_url_def projects_url_def
      success_def ok_def demo_users_schema_def)

lemma two_pages_projects:
  assumes "1 \<le> p" and "p \<le> 2"
  shows "delivers (backend two_pages) demo_client (projects_endpoint p) demo_projects_schema
           (projects_page p)"
  using element_1_2[OF assms]
  by (auto simp: delivers_def backend_def two_pages_def fetch_request_def demo_client_def
      projects_endpoint_def show_int_1 show_int_2 users_url_def entries_url_def projects_url_def
      success_def ok_def demo_projects_schema_def)

lemma two_pages_entries:
  assumes "1 \<le> p" and "p \<le> 2"
  shows "delivers (backend two_pages) demo_client
           (entries_endpoint ''2025-09-01T00:00:00Z'' ''2025-09-30T23:59:59Z'' p)
           demo_entries_schema (entries_page p)"
  using element_1_2[OF assms]
  by (auto simp: delivers_def backend_def two_pages_def fetch_request_def demo_client_def
      entries_endpoint_def show_int_1 show_int_2 users_url_def entries_url_def projects_url_def
      success_def ok_def demo_entries_schema_def)

lemma two_pages_counts:
  "count_pages (ClockodoUsersResponse.paging (users_page p)) = 2"
  "count_pages (ClockodoEntriesResponse.paging (entries_page p)) = 2"
  "count_pages (ClockodoProjectsResponse.paging (projects_page p)) = 2"
  by (simp_all add: users_page_def entries_page_def projects_page_def envelope_def)

lemma demo_urls:
  "baseUrl demo_client @ users_endpoint 1 = users_url ''1''"
  "baseUrl demo_client @ users_endpoint 2 = users_url ''2''"
  "baseUrl demo_client @ projects_endpoint 1 = projects_url ''1''"
  "baseUrl demo_client @ projects_endpoint 2 = projects_url ''2''"
  "baseUrl demo_client @ entries_endpoint ''2025-09-01T00:00:00Z'' ''2025-09-30T23:59:59Z'' 1
     = entries_url ''1''"
  "baseUrl demo_client @ entries_endpoint ''2025-09-01T00:00:00Z'' ''2025-09-30T23:59:59Z'' 2
     = entries_url ''2''"
  by (simp_all add: demo_client_def users_endpoint_def projects_endpoint_def entries_endpoint_def
      users_url_def projects_url_def entries_url_def show_int_1 show_int_2)

text \<open>
  C1. When every page from 1 to N is delivered with \<open>count_pages = N\<close>, where
  \<open>N \<ge> 1\<close>, each retrieval operation fetches the pages 1 to N in this order and no
  other, and resolves: \<open>getUsers\<close> and \<open>getProjects\<close> to the item arrays of the pages,
  concatenated in page order with every record as it was validated; \<open>getEntries\<close> to the
  concatenation of the entries of each page whose \<open>users_id\<close> is the \<open>userId\<close> asked for.
\<close>

theorem C1_all_pages:
  assumes "1 \<le> N"
  shows
   "((\<forall>p. 1 \<le> p \<and> p \<le> N \<longrightarrow>
         delivers rt this (users_endpoint p) US (ur p) \<and>
         count_pages (ClockodoUsersResponse.paging (ur p)) = N) \<longrightarrow>
       observed (getUsers rt this US w) =
         Some (Inr (concat (map (\<lambda>p. ClockodoUsersResponse.data (ur p)) [1..N])),
               fetched w @ map (\<lambda>p. baseUrl this @ users_endpoint p) [1..N]))
    \<and> ((\<forall>p. 1 \<le> p \<and> p \<le> N \<longrightarrow>
         delivers rt this (projects_endpoint p) PS (pr p) \<and>
         count_pages (ClockodoProjectsResponse.paging (pr p)) = N) \<longrightarrow>
       observed (getProjects rt this PS w) =
         Some (Inr (concat (map (\<lambda>p. ClockodoProjectsResponse.data (pr p)) [1..N])),
               fetched w @ map (\<lambda>p. baseUrl this @ projects_endpoint p) [1..N]))
    \<and> ((\<forall>p. 1 \<le> p \<and> p \<le> N \<longrightarrow>
         delivers rt this (entries_endpoint timeSince timeUntil p) ES (er p) \<and>
         count_pages (ClockodoEntriesResponse.paging (er p)) = N) \<longrightarrow>
       observed (getEntries rt this ES userId timeSince timeUntil w) =
         Some (Inr (concat (map (\<lambda>p. filter (\<lambda>entry. users_id entry = userId) (entries (er p))) [1..N])),
               fetched w @ map (\<lambda>p. baseUrl this @ entries_endpoint timeSince timeUntil p) [1..N]))"
proof (intro conjI impI)
  assume h: "\<forall>p. 1 \<le> p \<and> p \<le> N \<longrightarrow>
         delivers rt this (users_endpoint p) US (ur p) \<and>
         count_pages (ClockodoUsersResponse.paging (ur p)) = N"
  show "observed (getUsers rt this US w) =
         Some (Inr (concat (map (\<lambda>p. ClockodoUsersResponse.data (ur p)) [1..N])),
               fetched w @ map (\<lambda>p. baseUrl this @ users_endpoint p) [1..N])"
    unfolding getUsers_def
    by (rule retrieve_pages_observed[where resp=ur, OF assms]) (simp_all add: h)
next
  assume h: "\<forall>p. 1 \<le> p \<and> p \<le> N \<longrightarrow>
         delivers rt this (projects_endpoint p) PS (pr p) \<and>
         count_pages (ClockodoProjectsResponse.paging (pr p)) = N"
  show "observed (getProjects rt this PS w) =
         Some (Inr (concat (map (\<lambda>p. ClockodoProjectsResponse.data (pr p)) [1..N])),
               fetched w @ map (\<lambda>p. baseUrl this @ projects_endpoint p) [1..N])"
    unfolding getProjects_def
    by (rule retrieve_pages_observed[where resp=pr, OF assms]) (simp_all add: h)
next
  assume h: "\<forall>p. 1 \<le> p \<and> p \<le> N \<longrightarrow>
         delivers rt this (entries_endpoint timeSince timeUntil p) ES (er p) \<and>
         count_pages (ClockodoEntriesResponse.paging (er p)) = N"
  show "observed (getEntries rt this ES userId timeSince timeUntil w) =
         Some (Inr (concat (map (\<lambda>p. filter (\<lambda>entry. users_id entry = userId) (entries (er p))) [1..N])),
               fetched w @ map (\<lambda>p. baseUrl this @ entries_endpoint timeSince timeUntil p) [1..N])"
    unfolding getEntries_def
    by (rule retrieve_pages_observed[where resp=er, OF assms]) (simp_all add: h)
qed

theorem C1_all_pages_witness:
  "observed (getUsers (backend two_pages) demo_client demo_users_schema w_init) =
     Some (Inr [user 1 ''alice'', user 2 ''bob'', user 3 ''carol''], [users_url ''1'', users_url ''2''])
   \<and> observed (getProjects (backend two_pages) demo_client demo_projects_schema w_init) =
     Some (Inr [project 21 ''site'', project 22 ''shop'', project 23 ''app''],
           [projects_url ''1'', projects_url ''2''])
   \<and> observed (getEntries (backend two_pages) demo_client demo_entries_schema 7
        ''2025-09-01T00:00:00Z'' ''2025-09-30T23:59:59Z'' w_init) =
     Some (Inr [entry 11 7, entry 13 7], [entries_url ''1'', entries_url ''2''])"
proof -
  have n: "(1::int) \<le> 2" by simp
  have hu: "\<forall>p. 1 \<le> p \<and> p \<le> 2 \<longrightarrow>
      delivers (backend two_pages) demo_client (users_endpoint p) demo_users_schema (users_page p) \<and>
      count_pages (ClockodoUsersResponse.paging (users_page p)) = 2"
    using two_pages_users two_pages_counts(1) by simp
  have hp: "\<forall>p. 1 \<le> p \<and> p \<le> 2 \<longrightarrow>
      delivers (backend two_pages) demo_client (projects_endpoint p) demo_projects_schema
        (projects_page p) \<and>
      count_pages (ClockodoProjectsResponse.paging (projects_page p)) = 2"
    using two_pages_projects two_pages_counts(3) by simp
  have he: "\<forall>p. 1 \<le> p \<and> p \<le> 2 \<longrightarrow>
      delivers (backend two_pages) demo_client
        (entries_endpoint ''2025-09-01T00:00:00Z'' ''2025-09-30T23:59:59Z'' p)
        demo_entries_schema (entries_page p) \<and>
      count_pages (ClockodoEntriesResponse.paging (entries_page p)) = 2"
    using two_pages_entries two_pages_counts(2) by simp
  note t = C1_all_pages[OF n, of "backend two_pages" demo_client demo_users_schema users_page w_init
      demo_projects_schema projects_page "''2025-09-01T00:00:00Z''" "''2025-09-30T23:59:59Z''"
      demo_entries_schema entries_page 7]
  have 1: "observed (getUsers (backend two_pages) demo_client demo_users_schema w_init) =
     Some (Inr [user 1 ''alice'', user 2 ''bob'', user 3 ''carol''], [users_url ''1'', users_url ''2''])"
    using t[THEN conjunct1, THEN mp, OF hu]
    by (simp add: upto_1_2 demo_urls users_page_def w_init_def)
  have 2: "observed (getProjects (backend two_pages) demo_client demo_projects_schema w_init) =
     Some (Inr [project 21 ''site'', project 22 ''shop'', project 23 ''app''],
           [projects_url ''1'', projects_url ''2''])"
    using t[THEN conjunct2, THEN conjunct1, THEN mp, OF hp]
    by (simp add: upto_1_2 demo_urls projects_page_def w_init_def)
  have 3: "observed (getEntries (backend two_pages) demo_client demo_entries_schema 7
        ''2025-09-01T00:00:00Z'' ''2025-09-30T23:59:59Z'' w_init) =
     Some (Inr [entry 11 7, entry 13 7], [entries_url ''1'', entries_url ''2''])"
    using t[THEN conjunct2, THEN conjunct2, THEN mp, OF he]
    by (simp add: upto_1_2 demo_urls entries_page_def entry_def w_init_def)
  show ?thesis by (intro conjI) (rule 1, rule 2, rule 3)
qed

theorem C1_counterexample:
  "delivers (backend two_pages) demo_client
     (entries_endpoint ''2025-09-01T00:00:00Z'' ''2025-09-30T23:59:59Z'' 1)
     demo_entries_schema (entries_page 1)
   \<and> delivers (backend two_pages) demo_client
     (entries_endpoint ''2025-09-01T00:00:00Z'' ''2025-09-30T23:59:59Z'' 2)
     demo_entries_schema (entries_page 2)
   \<and> count_pages (ClockodoEntriesResponse.paging (entries_page 1)) = 2
   \<and> current_page (ClockodoEntriesResponse.paging (entries_page 1)) = 1
   \<and> count_pages (ClockodoEntriesResponse.paging (entries_page 2)) = 2
   \<and> current_page (ClockodoEntriesResponse.paging (entries_page 2)) = 2
   \<and> concat (map (\<lambda>p. entries (entries_page p)) [1..2]) = [entry 11 7, entry 12 8, entry 13 7]
   \<and> observed (getEntries (backend two_pages) demo_client demo_entries_schema 7
        ''2025-09-01T00:00:00Z'' ''2025-09-30T23:59:59Z'' w_init) =
       Some (Inr [entry 11 7, entry 13 7], [entries_url ''1'', entries_url ''2''])"
proof -
  have n: "(1::int) \<le> 2" by simp
  have g: "observed (getEntries (backend two_pages) demo_client demo_entries_schema 7
        ''2025-09-01T00:00:00Z'' ''2025-09-30T23:59:59Z'' w_init) =
       Some (Inr [entry 11 7, entry 13 7], [entries_url ''1'', entries_url ''2''])"
    unfolding getEntries_def
    by (subst retrieve_pages_observed[where resp=entries_page and N=2
          and ep="entries_endpoint ''2025-09-01T00:00:00Z'' ''2025-09-30T23:59:59Z''"
          and schema=demo_entries_schema, OF n two_pages_entries])
       (simp_all add: two_pages_counts upto_1_2 demo_urls entries_page_def entry_def w_init_def envelope_def)
  have c: "concat (map (\<lambda>p. entries (entries_page p)) [1..2]) = [entry 11 7, entry 12 8, entry 13 7]"
    by (simp add: upto_1_2 entries_page_def)
  have e: "current_page (ClockodoEntriesResponse.paging (entries_page 1)) = 1"
          "current_page (ClockodoEntriesResponse.paging (entries_page 2)) = 2"
    by (simp_all add: entries_page_def envelope_def)
  show ?thesis
    by (intro conjI)
       (rule two_pages_entries, simp, simp, rule two_pages_entries, simp, simp,
        rule two_pages_counts, rule e, rule two_pages_counts, rule e, rule c, rule g)
qed

text \<open>
  C2. When the pages 1 to P of the date range are delivered with \<open>count_pages = P\<close>,
  \<open>getEntries\<close> fetches the pages 1 to P in this order, whatever the \<open>userId\<close>, and
  resolves to the received entries whose \<open>users_id\<close> is \<open>userId\<close>, in the order
  received. Two calls that differ in \<open>userId\<close> alone leave the same list of fetched URLs
  and the same log.
\<close>

theorem C2_entries_filter:
  assumes "1 \<le> P"
      and "\<And>p. 1 \<le> p \<Longrightarrow> p \<le> P \<Longrightarrow> delivers rt this (entries_endpoint timeSince timeUntil p) ES (er p)"
      and "\<And>p. 1 \<le> p \<Longrightarrow> p \<le> P \<Longrightarrow> count_pages (ClockodoEntriesResponse.paging (er p)) = P"
  shows "observed (getEntries rt this ES userId timeSince timeUntil w) =
           Some (Inr (filter (\<lambda>entry. users_id entry = userId)
                        (concat (map (\<lambda>p. entries (er p)) [1..P]))),
                 fetched w @ map (\<lambda>p. baseUrl this @ entries_endpoint timeSince timeUntil p) [1..P])
    \<and> map_option snd (getEntries rt this ES userId timeSince timeUntil w) =
        map_option snd (getEntries rt this ES otherId timeSince timeUntil w)"
proof (intro conjI)
  have "observed (getEntries rt this ES userId timeSince timeUntil w) =
      Some (Inr (concat (map (\<lambda>p. filter (\<lambda>entry. users_id entry = userId) (entries (er p))) [1..P])),
            fetched w @ map (\<lambda>p. baseUrl this @ entries_endpoint timeSince timeUntil p) [1..P])"
    unfolding getEntries_def
    by (rule retrieve_pages_observed[where resp=er and ep="entries_endpoint timeSince timeUntil"
          and schema=ES and pages="\<lambda>response. count_pages (ClockodoEntriesResponse.paging response)",
          OF assms])
  then show "observed (getEntries rt this ES userId timeSince timeUntil w) =
           Some (Inr (filter (\<lambda>entry. users_id entry = userId)
                        (concat (map (\<lambda>p. entries (er p)) [1..P]))),
                 fetched w @ map (\<lambda>p. baseUrl this @ entries_endpoint timeSince timeUntil p) [1..P])"
    by (simp add: filter_concat comp_def)
next
  show "map_option snd (getEntries rt this ES userId timeSince timeUntil w) =
        map_option snd (getEntries rt this ES otherId timeSince timeUntil w)"
    unfolding getEntries_def
    by (simp only: retrieve_pages[where resp=er and ep="entries_endpoint timeSince timeUntil" and schema=ES and pages="\<lambda>response. count_pages (ClockodoEntriesResponse.paging response)", OF assms]
          option.map snd_conv)
qed

theorem C2_entries_filter_witness:
  "observed (getEntries (backend two_pages) demo_client demo_entries_schema 8
        ''2025-09-01T00:00:00Z'' ''2025-09-30T23:59:59Z'' w_init) =
     Some (Inr [entry 12 8], [entries_url ''1'', entries_url ''2''])
   \<and> map_option snd (getEntries (backend two_pages) demo_client demo_entries_schema 8
        ''2025-09-01T00:00:00Z'' ''2025-09-30T23:59:59Z'' w_init) =
     map_option snd (getEntries (backend two_pages) demo_client demo_entries_schema 7
        ''2025-09-01T00:00:00Z'' ''2025-09-30T23:59:59Z'' w_init)"
proof -
  have n: "(1::int) \<le> 2" by simp
  note t = C2_entries_filter[where er=entries_page and P=2, OF n two_pages_entries two_pages_counts(2),
      of 8 w_init 7]
  have 1: "observed (getEntries (backend two_pages) demo_client demo_entries_schema 8
        ''2025-09-01T00:00:00Z'' ''2025-09-30T23:59:59Z'' w_init) =
     Some (Inr [entry 12 8], [entries_url ''1'', entries_url ''2''])"
    using t[THEN conjunct1]
    by (simp add: upto_1_2 demo_urls entries_page_def entry_def w_init_def)
  show ?thesis by (intro conjI) (rule 1, rule t[THEN conjunct2])
qed

subsection \<open>A page that fails\<close>

lemma makeRequest_fetch_rejected:
  assumes "fetch rt (fetch_request this (baseUrl this @ endpoint)) = Inl e"
      and "\<not> is_ZodError e"
  shows "fst (makeRequest rt this endpoint schema w) = Inl e"
  using assms by (cases e) (simp_all add: makeRequest_def makeRequest_try_def Let_def)

text \<open>
  C4. When the pages before page k are delivered, each with more pages to come, and the
  request of page k fails, the retrieval operation fails: it throws an Error whose message
  is "Failed to fetch users from Clockodo API: " (or entries, or projects) and the text of
  the error of page k. The pages 1 to k were fetched and nothing of them is returned.
\<close>

theorem C4_failure:
  assumes "1 \<le> k"
  shows
   "((\<forall>p. 1 \<le> p \<and> p < k \<longrightarrow>
         delivers rt this (users_endpoint p) US (ur p) \<and>
         p < count_pages (ClockodoUsersResponse.paging (ur p)))
      \<and> (\<forall>w. fst (makeRequest rt this (users_endpoint k) US w) = Inl eu) \<longrightarrow>
       observed (getUsers rt this US w) =
         Some (Inl (JsError ''Error'' (''Failed to fetch users from Clockodo API: '' @ error_text rt eu)),
               fetched w @ map (\<lambda>p. baseUrl this @ users_endpoint p) [1..k]))
    \<and> ((\<forall>p. 1 \<le> p \<and> p < k \<longrightarrow>
         delivers rt this (entries_endpoint timeSince timeUntil p) ES (er p) \<and>
         p < count_pages (ClockodoEntriesResponse.paging (er p)))
      \<and> (\<forall>w. fst (makeRequest rt this (entries_endpoint timeSince timeUntil k) ES w) = Inl ee) \<longrightarrow>
       observed (getEntries rt this ES userId timeSince timeUntil w) =
         Some (Inl (JsError ''Error'' (''Failed to fetch entries from Clockodo API: '' @ error_text rt ee)),
               fetched w @ map (\<lambda>p. baseUrl this @ entries_endpoint timeSince timeUntil p) [1..k]))
    \<and> ((\<forall>p. 1 \<le> p \<and> p < k \<longrightarrow>
         delivers rt this (projects_endpoint p) PS (pr p) \<and>
         p < count_pages (ClockodoProjectsResponse.paging (pr p)))
      \<and> (\<forall>w. fst (makeRequest rt this (projects_endpoint k) PS w) = Inl ep) \<longrightarrow>
       observed (getProjects rt this PS w) =
         Some (Inl (JsError ''Error'' (''Failed to fetch projects from Clockodo API: '' @ error_text rt ep)),
               fetched w @ map (\<lambda>p. baseUrl this @ projects_endpoint p) [1..k]))"
proof (intro conjI impI)
  assume h: "(\<forall>p. 1 \<le> p \<and> p < k \<longrightarrow>
         delivers rt this (users_endpoint p) US (ur p) \<and>
         p < count_pages (ClockodoUsersResponse.paging (ur p)))
      \<and> (\<forall>w. fst (makeRequest rt this (users_endpoint k) US w) = Inl eu)"
  show "observed (getUsers rt this US w) =
         Some (Inl (JsError ''Error'' (''Failed to fetch users from Clockodo API: '' @ error_text rt eu)),
               fetched w @ map (\<lambda>p. baseUrl this @ users_endpoint p) [1..k])"
    unfolding getUsers_def
    by (rule retrieve_fails[where resp=ur and ep=users_endpoint and schema=US, OF assms])
       (simp_all add: h)
next
  assume h: "(\<forall>p. 1 \<le> p \<and> p < k \<longrightarrow>
         delivers rt this (entries_endpoint timeSince timeUntil p) ES (er p) \<and>
         p < count_pages (ClockodoEntriesResponse.paging (er p)))
      \<and> (\<forall>w. fst (makeRequest rt this (entries_endpoint timeSince timeUntil k) ES w) = Inl ee)"
  show "observed (getEntries rt this ES userId timeSince timeUntil w) =
         Some (Inl (JsError ''Error'' (''Failed to fetch entries from Clockodo API: '' @ error_text rt ee)),
               fetched w @ map (\<lambda>p. baseUrl this @ entries_endpoint timeSince timeUntil p) [1..k])"
    unfolding getEntries_def
    by (rule retrieve_fails[where resp=er and ep="entries_endpoint timeSince timeUntil" and schema=ES,
          OF assms])
       (simp_all add: h)
next
  assume h: "(\<forall>p. 1 \<le> p \<and> p < k \<longrightarrow>
         delivers rt this (projects_endpoint p) PS (pr p) \<and>
         p < count_pages (ClockodoProjectsResponse.paging (pr p)))
      \<and> (\<forall>w. fst (makeRequest rt this (projects_endpoint k) PS w) = Inl ep)"
  show "observed (getProjects rt this PS w) =
         Some (Inl (JsError ''Error'' (''Failed to fetch projects from Clockodo API: '' @ error_text rt ep)),
               fetched w @ map (\<lambda>p. baseUrl this @ projects_endpoint p) [1..k])"
    unfolding getProjects_def
    by (rule retrieve_fails[where resp=pr and ep=projects_endpoint and schema=PS, OF assms])
       (simp_all add: h)
qed

lemma broken_first_pages:
  "delivers (backend broken_second_page) demo_client (users_endpoint 1) demo_users_schema (users_page 1)"
  "delivers (backend broken_second_page) demo_client
     (entries_endpoint ''2025-09-01T00:00:00Z'' ''2025-09-30T23:59:59Z'' 1)
     demo_entries_schema (entries_page 1)"
  "delivers (backend broken_second_page) demo_client (projects_endpoint 1) demo_projects_schema
     (projects_page 1)"
  by (simp_all add: delivers_def backend_def broken_second_page_def fetch_request_def demo_client_def
      users_endpoint_def entries_endpoint_def projects_endpoint_def show_int_1 users_url_def
      entries_url_def projects_url_def success_def ok_def demo_users_schema_def
      demo_entries_schema_def demo_projects_schema_def)

lemma broken_second_pages:
  "fst (makeRequest (backend broken_second_page) demo_client (users_endpoint 2) demo_users_schema w) =
     Inl (JsError ''Error'' ''HTTP 500: Internal Server Error'')"
  "fst (makeRequest (backend broken_second_page) demo_client
     (entries_endpoint ''2025-09-01T00:00:00Z'' ''2025-09-30T23:59:59Z'' 2) demo_entries_schema w) =
     Inl (JsError ''TypeError'' ''fetch failed'')"
  "fst (makeRequest (backend broken_second_page) demo_client (projects_endpoint 2)
     demo_projects_schema w) =
     Inl (JsError ''Error'' ''Invalid API response format: [data: Required][paging: Required]'')"
proof -
  show "fst (makeRequest (backend broken_second_page) demo_client (users_endpoint 2) demo_users_schema w) =
     Inl (JsError ''Error'' ''HTTP 500: Internal Server Error'')"
    by (subst makeRequest_http_error(1)[OF broken_users_2]) (simp_all add: ok_def show_int_500)
  show "fst (makeRequest (backend broken_second_page) demo_client
     (entries_endpoint ''2025-09-01T00:00:00Z'' ''2025-09-30T23:59:59Z'' 2) demo_entries_schema w) =
     Inl (JsError ''TypeError'' ''fetch failed'')"
    by (rule makeRequest_fetch_rejected[OF broken_entries_2]) simp
  have f: "fetch (backend broken_second_page)
     (fetch_request demo_client (baseUrl demo_client @ projects_endpoint 2)) =
       Inr \<lparr>status = 200, statusText = ''OK'', textBody = Inr ''(json)'',
            jsonBody = Inr (JsonValue OtherJson)\<rparr>"
    using broken_projects_2 by (simp add: success_def)
  show "fst (makeRequest (backend broken_second_page) demo_client (projects_endpoint 2)
     demo_projects_schema w) =
     Inl (JsError ''Error'' ''Invalid API response format: [data: Required][paging: Required]'')"
    by (subst makeRequest_invalid(1)[where schema=demo_projects_schema and body=OtherJson
          and iss="[''data: Required'', ''paging: Required'']", OF f])
       (simp_all add: ok_def demo_projects_schema_def backend_def)
qed

lemma element_1: "1 \<le> p \<and> p < 2 \<Longrightarrow> p = (1::int)"
  by arith

theorem C4_failure_witness:
  "observed (getUsers (backend broken_second_page) demo_client demo_users_schema w_init) =
     Some (Inl (JsError ''Error''
             ''Failed to fetch users from Clockodo API: HTTP 500: Internal Server Error''),
           [users_url ''1'', users_url ''2''])
   \<and> observed (getEntries (backend broken_second_page) demo_client demo_entries_schema 7
        ''2025-09-01T00:00:00Z'' ''2025-09-30T23:59:59Z'' w_init) =
     Some (Inl (JsError ''Error'' ''Failed to fetch entries from Clockodo API: fetch failed''),
           [entries_url ''1'', entries_url ''2''])
   \<and> observed (getProjects (backend broken_second_page) demo_client demo_projects_schema w_init) =
     Some (Inl (JsError ''Error''
             ''Failed to fetch projects from Clockodo API: Invalid API response format: [data: Required][paging: Required]''),
           [projects_url ''1'', projects_url ''2''])"
proof -
  have n: "(1::int) \<le> 2" by simp
  have hu: "(\<forall>p. 1 \<le> p \<and> p < 2 \<longrightarrow>
      delivers (backend broken_second_page) demo_client (users_endpoint p) demo_users_schema
        (users_page p) \<and>
      p < count_pages (ClockodoUsersResponse.paging (users_page p)))
    \<and> (\<forall>w. fst (makeRequest (backend broken_second_page) demo_client (users_endpoint 2)
          demo_users_schema w) = Inl (JsError ''Error'' ''HTTP 500: Internal Server Error''))"
    using broken_first_pages(1) broken_second_pages(1) two_pages_counts(1)
    by (auto dest!: element_1)
  have he: "(\<forall>p. 1 \<le> p \<and> p < 2 \<longrightarrow>
      delivers (backend broken_second_page) demo_client
        (entries_endpoint ''2025-09-01T00:00:00Z'' ''2025-09-30T23:59:59Z'' p)
        demo_entries_schema (entries_page p) \<and>
      p < count_pages (ClockodoEntriesResponse.paging (entries_page p)))
    \<and> (\<forall>w. fst (makeRequest (backend broken_second_page) demo_client
          (entries_endpoint ''2025-09-01T00:00:00Z'' ''2025-09-30T23:59:59Z'' 2)
          demo_entries_schema w) = Inl (JsError ''TypeError'' ''fetch failed''))"
    using broken_first_pages(2) broken_second_pages(2) two_pages_counts(2)
    by (auto dest!: element_1)
  have hp: "(\<forall>p. 1 \<le> p \<and> p < 2 \<longrightarrow>
      delivers (backend broken_second_page) demo_client (projects_endpoint p) demo_projects_schema
        (projects_page p) \<and>
      p < count_pages (ClockodoProjectsResponse.paging (projects_page p)))
    \<and> (\<forall>w. fst (makeRequest (backend broken_second_page) demo_client (projects_endpoint 2)
          demo_projects_schema w) =
          Inl (JsError ''Error'' ''Invalid API response format: [data: Required][paging: Required]''))"
    using broken_first_pages(3) broken_second_pages(3) two_pages_counts(3)
    by (auto dest!: element_1)
  note t = C4_failure[OF n, of "backend broken_second_page" demo_client demo_users_schema users_page
      "JsError ''Error'' ''HTTP 500: Internal Server Error''" w_init
      "''2025-09-01T00:00:00Z''" "''2025-09-30T23:59:59Z''" demo_entries_schema entries_page
      "JsError ''TypeError'' ''fetch failed''" 7
      demo_projects_schema projects_page
      "JsError ''Error'' ''Invalid API response format: [data: Required][paging: Required]''"]
  have 1: "observed (getUsers (backend broken_second_page) demo_client demo_users_schema w_init) =
     Some (Inl (JsError ''Error''
             ''Failed to fetch users from Clockodo API: HTTP 500: Internal Server Error''),
           [users_url ''1'', users_url ''2''])"
    using t[THEN conjunct1, THEN mp, OF hu] by (simp add: upto_1_2 demo_urls w_init_def)
  have 2: "observed (getEntries (backend broken_second_page) demo_client demo_entries_schema 7
        ''2025-09-01T00:00:00Z'' ''2025-09-30T23:59:59Z'' w_init) =
     Some (Inl (JsError ''Error'' ''Failed to fetch entries from Clockodo API: fetch failed''),
           [entries_url ''1'', entries_url ''2''])"
    using t[THEN conjunct2, THEN conjunct1, THEN mp, OF he] by (simp add: upto_1_2 demo_urls w_init_def)
  have 3: "observed (getProjects (backend broken_second_page) demo_client demo_projects_schema w_init) =
     Some (Inl (JsError ''Error''
             ''Failed to fetch projects from Clockodo API: Invalid API response format: [data: Required][paging: Required]''),
           [projects_url ''1'', projects_url ''2''])"
    using t[THEN conjunct2, THEN conjunct2, THEN mp, OF hp] by (simp add: upto_1_2 demo_urls w_init_def)
  show ?thesis by (intro conjI) (rule 1, rule 2, rule 3)
qed

subsection \<open>The first page and the test of the loop\<close>

lemma paginate_last_page:
  assumes "fst (request page w) = Inr response"
      and "\<not> page < pages response"
  shows "paginate request items pages acc page w =
           Some (Inr (acc @ items response), snd (request page w))"
proof -
  have r: "request page w = (Inr response, snd (request page w))"
    using assms(1) by (simp add: prod_eq_iff)
  show ?thesis
    using assms(2) by (simp add: paginate_step[where request=request and page=page and w=w, OF r])
qed

lemma paginate_next_page:
  assumes "fst (request page w) = Inr response"
      and "page < pages response"
  shows "paginate request items pages acc page w =
           paginate request items pages (acc @ items response) (page + 1) (snd (request page w))"
proof -
  have r: "request page w = (Inr response, snd (request page w))"
    using assms(1) by (simp add: prod_eq_iff)
  show ?thesis
    using assms(2) by (simp add: paginate_step[where request=request and page=page and w=w, OF r])
qed

lemma paginate_fetched_extends_aux:
  fixes request :: "int \<Rightarrow> ('i, 'j) world \<Rightarrow> ('x + 'r) \<times> ('i, 'j) world"
    and items :: "'r \<Rightarrow> 'a list"
  assumes run: "paginate request items pages acc page w = Some y"
  shows "(\<forall>p w. fetched (snd (request p w)) = fetched w @ [u p]) \<longrightarrow>
     (\<exists>rest. fetched (snd y) = fetched w @ u page # rest)"
proof (rule paginate.raw_induct[where P="\<lambda>request items pages acc page w y.
     (\<forall>p w. fetched (snd (request p w)) = fetched w @ [u p]) \<longrightarrow>
     (\<exists>rest. fetched (snd y) = fetched w @ u page # rest)", OF _ run])
  fix loop :: "(int \<Rightarrow> ('i, 'j) world \<Rightarrow> ('x + 'r) \<times> ('i, 'j) world) \<Rightarrow> ('r \<Rightarrow> 'a list) \<Rightarrow> ('r \<Rightarrow> int)
      \<Rightarrow> 'a list \<Rightarrow> int \<Rightarrow> ('i, 'j) world \<Rightarrow> (('x + 'a list) \<times> ('i, 'j) world) option"
  fix request :: "int \<Rightarrow> ('i, 'j) world \<Rightarrow> ('x + 'r) \<times> ('i, 'j) world"
  fix items :: "'r \<Rightarrow> 'a list" and pages :: "'r \<Rightarrow> int" and acc :: "'a list" and page :: int
  fix w :: "('i, 'j) world" and y :: "('x + 'a list) \<times> ('i, 'j) world"
  assume IH: "\<And>request items pages acc page w y. loop request items pages acc page w = Some y \<Longrightarrow>
     (\<forall>p w. fetched (snd (request p w)) = fetched w @ [u p]) \<longrightarrow>
     (\<exists>rest. fetched (snd y) = fetched w @ u page # rest)"
  assume body: "(case request page w of
        (Inl error, w') \<Rightarrow> Some (Inl error, w')
      | (Inr response, w') \<Rightarrow>
          (let allItems' = acc @ items response in
           if page < pages response
           then loop request items pages allItems' (page + 1) w'
           else Some (Inr allItems', w'))) = Some y"
  show "(\<forall>p w. fetched (snd (request p w)) = fetched w @ [u p]) \<longrightarrow>
     (\<exists>rest. fetched (snd y) = fetched w @ u page # rest)"
  proof
    assume f: "\<forall>p w. fetched (snd (request p w)) = fetched w @ [u p]"
    obtain r w' where rq: "request page w = (r, w')" by (cases "request page w")
    have fw: "fetched w' = fetched w @ [u page]" using f[rule_format, of page w] rq by simp
    show "\<exists>rest. fetched (snd y) = fetched w @ u page # rest"
    proof (cases r)
      case (Inl e)
      with body rq have "y = (Inl e, w')" by simp
      then show ?thesis using fw by simp
    next
      case (Inr response)
      show ?thesis
      proof (cases "page < pages response")
        case True
        with body rq Inr
        have "loop request items pages (acc @ items response) (page + 1) w' = Some y"
          by (simp add: Let_def)
        from IH[OF this] f obtain rest where "fetched (snd y) = fetched w' @ u (page + 1) # rest"
          by blast
        then show ?thesis using fw by simp
      next
        case False
        with body rq Inr have "y = (Inr (acc @ items response), w')" by (simp add: Let_def)
        then show ?thesis using fw by simp
      qed
    qed
  qed
qed

lemma paginate_fetched_extends:
  fixes request :: "int \<Rightarrow> ('i, 'j) world \<Rightarrow> ('x + 'r) \<times> ('i, 'j) world"
    and items :: "'r \<Rightarrow> 'a list"
  assumes "\<And>p w. fetched (snd (request p w)) = fetched w @ [u p]"
      and "paginate request items pages acc page w = Some (res, w')"
  shows "\<exists>rest. fetched w' = fetched w @ u page # rest"
  using paginate_fetched_extends_aux[OF assms(2), of u] assms(1) by simp


lemma retrieve_single_page:
  assumes "delivers rt this (ep 1) schema v"
      and "pages v \<le> 1"
  shows "observed (rethrow rt prefix
           (paginate (\<lambda>p. makeRequest rt this (ep p) schema) items pages [] 1 w)) =
         Some (Inr (items v), fetched w @ [baseUrl this @ ep 1])"
proof -
  have r: "fst (makeRequest rt this (ep 1) schema w) = Inr v"
    using assms(1) by (rule makeRequest_delivers)
  have n: "\<not> 1 < pages v" using assms(2) by simp
  have "paginate (\<lambda>p. makeRequest rt this (ep p) schema) items pages [] 1 w =
      Some (Inr ([] @ items v), snd (makeRequest rt this (ep 1) schema w))"
    by (rule paginate_last_page[where request="\<lambda>p. makeRequest rt this (ep p) schema" and page=1
          and pages=pages and response=v, OF r n])
  then show ?thesis
    by (simp add: rethrow_def observed_Some fetched_makeRequest)
qed

lemma retrieve_first_fetch:
  fixes rt :: "('i, 'j) runtime" and schema :: "'j json \<Rightarrow> 'i list + 'r" and items :: "'r \<Rightarrow> 'a list"
  assumes "observed (rethrow rt prefix
           (paginate (\<lambda>p. makeRequest rt this (ep p) schema) items pages [] 1 w)) = Some (res, fs)"
  shows "\<exists>rest. fs = fetched w @ (baseUrl this @ ep 1) # rest"
proof -
  from assms obtain res' w' where
    p: "paginate (\<lambda>p. makeRequest rt this (ep p) schema) items pages [] 1 w = Some (res', w')"
    and f: "fs = fetched w'"
    by (auto simp: observed_def rethrow_def split: option.splits sum.splits)
  have "\<exists>rest. fetched w' = fetched w @ (baseUrl this @ ep 1) # rest"
    by (rule paginate_fetched_extends[where request="\<lambda>p. makeRequest rt this (ep p) schema"
          and u="\<lambda>p. baseUrl this @ ep p", OF fetched_makeRequest p])
  then show ?thesis using f by simp
qed

text \<open>
  C10. Every retrieval operation requests page 1 before it reads any envelope: a run that
  ends has fetched the URL of page 1 first. When the first response declares
  \<open>count_pages \<le> 1\<close> (0 and negative values too), that fetch is the only one and the
  operation resolves to the items of that page (for \<open>getEntries\<close>, those of the user).
\<close>

theorem C10_first_page:
  "(delivers rt this (users_endpoint 1) US ur \<and>
      count_pages (ClockodoUsersResponse.paging ur) \<le> 1 \<longrightarrow>
      observed (getUsers rt this US w) =
        Some (Inr (ClockodoUsersResponse.data ur), fetched w @ [baseUrl this @ users_endpoint 1]))
   \<and> (delivers rt this (entries_endpoint timeSince timeUntil 1) ES er \<and>
      count_pages (ClockodoEntriesResponse.paging er) \<le> 1 \<longrightarrow>
      observed (getEntries rt this ES userId timeSince timeUntil w) =
        Some (Inr (filter (\<lambda>entry. users_id entry = userId) (entries er)),
              fetched w @ [baseUrl this @ entries_endpoint timeSince timeUntil 1]))
   \<and> (delivers rt this (projects_endpoint 1) PS pr \<and>
      count_pages (ClockodoProjectsResponse.paging pr) \<le> 1 \<longrightarrow>
      observed (getProjects rt this PS w) =
        Some (Inr (ClockodoProjectsResponse.data pr), fetched w @ [baseUrl this @ projects_endpoint 1]))
   \<and> (\<forall>res fs. observed (getUsers rt this US w) = Some (res, fs) \<longrightarrow>
        (\<exists>rest. fs = fetched w @ (baseUrl this @ users_endpoint 1) # rest))
   \<and> (\<forall>res fs. observed (getEntries rt this ES userId timeSince timeUntil w) = Some (res, fs) \<longrightarrow>
        (\<exists>rest. fs = fetched w @ (baseUrl this @ entries_endpoint timeSince timeUntil 1) # rest))
   \<and> (\<forall>res fs. observed (getProjects rt this PS w) = Some (res, fs) \<longrightarrow>
        (\<exists>rest. fs = fetched w @ (baseUrl this @ projects_endpoint 1) # rest))"
proof (intro conjI impI allI)
  assume "delivers rt this (users_endpoint 1) US ur \<and>
      count_pages (ClockodoUsersResponse.paging ur) \<le> 1"
  then show "observed (getUsers rt this US w) =
        Some (Inr (ClockodoUsersResponse.data ur), fetched w @ [baseUrl this @ users_endpoint 1])"
    unfolding getUsers_def
    by (intro retrieve_single_page[where ep=users_endpoint and schema=US and v=ur]) simp_all
next
  assume "delivers rt this (entries_endpoint timeSince timeUntil 1) ES er \<and>
      count_pages (ClockodoEntriesResponse.paging er) \<le> 1"
  then show "observed (getEntries rt this ES userId timeSince timeUntil w) =
        Some (Inr (filter (\<lambda>entry. users_id entry = userId) (entries er)),
              fetched w @ [baseUrl this @ entries_endpoint timeSince timeUntil 1])"
    unfolding getEntries_def
    by (intro retrieve_single_page[where ep="entries_endpoint timeSince timeUntil" and schema=ES
          and v=er]) simp_all
next
  assume "delivers rt this (projects_endpoint 1) PS pr \<and>
      count_pages (ClockodoProjectsResponse.paging pr) \<le> 1"
  then show "observed (getProjects rt this PS w) =
        Some (Inr (ClockodoProjectsResponse.data pr), fetched w @ [baseUrl this @ projects_endpoint 1])"
    unfolding getProjects_def
    by (intro retrieve_single_page[where ep=projects_endpoint and schema=PS and v=pr]) simp_all
next
  fix res fs assume "observed (getUsers rt this US w) = Some (res, fs)"
  then show "\<exists>rest. fs = fetched w @ (baseUrl this @ users_endpoint 1) # rest"
    unfolding getUsers_def by (rule retrieve_first_fetch[where ep=users_endpoint])
next
  fix res fs assume "observed (getEntries rt this ES userId timeSince timeUntil w) = Some (res, fs)"
  then show "\<exists>rest. fs = fetched w @ (baseUrl this @ entries_endpoint timeSince timeUntil 1) # rest"
    unfolding getEntries_def
    by (rule retrieve_first_fetch[where ep="entries_endpoint timeSince timeUntil"])
next
  fix res fs assume "observed (getProjects rt this PS w) = Some (res, fs)"
  then show "\<exists>rest. fs = fetched w @ (baseUrl this @ projects_endpoint 1) # rest"
    unfolding getProjects_def by (rule retrieve_first_fetch[where ep=projects_endpoint])
qed

lemma single_page_first:
  "delivers (backend single_page) demo_client (users_endpoint 1) demo_users_schema
     \<lparr>ClockodoUsersResponse.data = [user 1 ''alice'', user 2 ''bob''], paging = envelope 1 0\<rparr>"
  "delivers (backend single_page) demo_client
     (entries_endpoint ''2025-09-01T00:00:00Z'' ''2025-09-30T23:59:59Z'' 1) demo_entries_schema
     \<lparr>ClockodoEntriesResponse.entries = [entry 11 7, entry 12 8], paging = envelope 1 1\<rparr>"
  "delivers (backend single_page) demo_client (projects_endpoint 1) demo_projects_schema
     \<lparr>ClockodoProjectsResponse.data = [project 21 ''site''], paging = envelope 1 (- 1)\<rparr>"
  by (simp_all add: delivers_def backend_def single_page_def fetch_request_def demo_client_def
      users_endpoint_def entries_endpoint_def projects_endpoint_def show_int_1 users_url_def
      entries_url_def projects_url_def success_def ok_def demo_users_schema_def
      demo_entries_schema_def demo_projects_schema_def)

theorem C10_first_page_witness:
  "observed (getUsers (backend single_page) demo_client demo_users_schema w_init) =
     Some (Inr [user 1 ''alice'', user 2 ''bob''], [users_url ''1''])
   \<and> observed (getEntries (backend single_page) demo_client demo_entries_schema 7
        ''2025-09-01T00:00:00Z'' ''2025-09-30T23:59:59Z'' w_init) =
     Some (Inr [entry 11 7], [entries_url ''1''])
   \<and> observed (getProjects (backend single_page) demo_client demo_projects_schema w_init) =
     Some (Inr [project 21 ''site''], [projects_url ''1''])
   \<and> (\<exists>rest. [users_url ''1''] = users_url ''1'' # rest)
   \<and> (\<exists>rest. [entries_url ''1''] = entries_url ''1'' # rest)
   \<and> (\<exists>rest. [projects_url ''1''] = projects_url ''1'' # rest)"
proof -
  note t = C10_first_page[of "backend single_page" demo_client demo_users_schema
      "\<lparr>ClockodoUsersResponse.data = [user 1 ''alice'', user 2 ''bob''], paging = envelope 1 0\<rparr>"
      w_init "''2025-09-01T00:00:00Z''" "''2025-09-30T23:59:59Z''" demo_entries_schema
      "\<lparr>ClockodoEntriesResponse.entries = [entry 11 7, entry 12 8], paging = envelope 1 1\<rparr>"
      7 demo_projects_schema
      "\<lparr>ClockodoProjectsResponse.data = [project 21 ''site''], paging = envelope 1 (- 1)\<rparr>"]
  have hu: "delivers (backend single_page) demo_client (users_endpoint 1) demo_users_schema
       \<lparr>ClockodoUsersResponse.data = [user 1 ''alice'', user 2 ''bob''], paging = envelope 1 0\<rparr> \<and>
     count_pages (ClockodoUsersResponse.paging
       \<lparr>ClockodoUsersResponse.data = [user 1 ''alice'', user 2 ''bob''], paging = envelope 1 0\<rparr>) \<le> 1"
    using single_page_first(1) by (simp add: envelope_def)
  have he: "delivers (backend single_page) demo_client
       (entries_endpoint ''2025-09-01T00:00:00Z'' ''2025-09-30T23:59:59Z'' 1) demo_entries_schema
       \<lparr>ClockodoEntriesResponse.entries = [entry 11 7, entry 12 8], paging = envelope 1 1\<rparr> \<and>
     count_pages (ClockodoEntriesResponse.paging
       \<lparr>ClockodoEntriesResponse.entries = [entry 11 7, entry 12 8], paging = envelope 1 1\<rparr>) \<le> 1"
    using single_page_first(2) by (simp add: envelope_def)
  have hp: "delivers (backend single_page) demo_client (projects_endpoint 1) demo_projects_schema
       \<lparr>ClockodoProjectsResponse.data = [project 21 ''site''], paging = envelope 1 (- 1)\<rparr> \<and>
     count_pages (ClockodoProjectsResponse.paging
       \<lparr>ClockodoProjectsResponse.data = [project 21 ''site''], paging = envelope 1 (- 1)\<rparr>) \<le> 1"
    using single_page_first(3) by (simp add: envelope_def)
  have 1: "observed (getUsers (backend single_page) demo_client demo_users_schema w_init) =
     Some (Inr [user 1 ''alice'', user 2 ''bob''], [users_url ''1''])"
    using t[THEN conjunct1, THEN mp, OF hu] by (simp add: demo_urls w_init_def)
  have 2: "observed (getEntries (backend single_page) demo_client demo_entries_schema 7
        ''2025-09-01T00:00:00Z'' ''2025-09-30T23:59:59Z'' w_init) =
     Some (Inr [entry 11 7], [entries_url ''1''])"
    using t[THEN conjunct2, THEN conjunct1, THEN mp, OF he]
    by (simp add: demo_urls w_init_def entry_def)
  have 3: "observed (getProjects (backend single_page) demo_client demo_projects_schema w_init) =
     Some (Inr [project 21 ''site''], [projects_url ''1''])"
    using t[THEN conjunct2, THEN conjunct2, THEN conjunct1, THEN mp, OF hp]
    by (simp add: demo_urls w_init_def)
  have 4: "\<exists>rest. [users_url ''1''] = users_url ''1'' # rest"
    using t[THEN conjunct2, THEN conjunct2, THEN conjunct2, THEN conjunct1, THEN spec, THEN spec,
        THEN mp, OF 1]
    by (simp add: demo_urls w_init_def)
  have 5: "\<exists>rest. [entries_url ''1''] = entries_url ''1'' # rest"
    using t[THEN conjunct2, THEN conjunct2, THEN conjunct2, THEN conjunct2, THEN conjunct1,
        THEN spec, THEN spec, THEN mp, OF 2]
    by (simp add: demo_urls w_init_def)
  have 6: "\<exists>rest. [projects_url ''1''] = projects_url ''1'' # rest"
    using t[THEN conjunct2, THEN conjunct2, THEN conjunct2, THEN conjunct2, THEN conjunct2,
        THEN spec, THEN spec, THEN mp, OF 3]
    by (simp add: demo_urls w_init_def)
  show ?thesis by (intro conjI) (rule 1, rule 2, rule 3, rule 4, rule 5, rule 6)
qed

text \<open>
  C3. After a page is received, the loop goes on exactly when the number of the
  page it requested (its own counter, 1 at first and one more at each turn) is less than
  the \<open>count_pages\<close> of the envelope, and the page it requests next is that counter plus
  one; otherwise the operation ends with no further fetch. The \<open>current_page\<close> of the
  envelope is not read. Where a response reports the requested page as its
  \<open>current_page\<close>, this is the test \<open>current_page < count_pages\<close>.
\<close>

theorem C3_continue:
  fixes rt :: "('i, 'j) runtime" and schema :: "'j json \<Rightarrow> 'i list + 'r" and items :: "'r \<Rightarrow> 'a list"
  assumes "fst (makeRequest rt this (ep page) schema w) = Inr response"
  shows
   "(\<not> page < count_pages (pg response) \<longrightarrow>
       observed (paginate (\<lambda>p. makeRequest rt this (ep p) schema) items
                   (\<lambda>r. count_pages (pg r)) acc page w) =
         Some (Inr (acc @ items response), fetched w @ [baseUrl this @ ep page]))
    \<and> (page < count_pages (pg response) \<longrightarrow>
       paginate (\<lambda>p. makeRequest rt this (ep p) schema) items (\<lambda>r. count_pages (pg r)) acc page w =
         paginate (\<lambda>p. makeRequest rt this (ep p) schema) items (\<lambda>r. count_pages (pg r))
           (acc @ items response) (page + 1) (snd (makeRequest rt this (ep page) schema w))
       \<and> (\<forall>res fs.
            observed (paginate (\<lambda>p. makeRequest rt this (ep p) schema) items
                        (\<lambda>r. count_pages (pg r)) acc page w) = Some (res, fs) \<longrightarrow>
            (\<exists>rest. fs = fetched w @ (baseUrl this @ ep page) # (baseUrl this @ ep (page + 1)) # rest)))"
proof (intro conjI impI allI)
  assume n: "\<not> page < count_pages (pg response)"
  have "paginate (\<lambda>p. makeRequest rt this (ep p) schema) items (\<lambda>r. count_pages (pg r)) acc page w =
      Some (Inr (acc @ items response), snd (makeRequest rt this (ep page) schema w))"
    by (rule paginate_last_page[where request="\<lambda>p. makeRequest rt this (ep p) schema" and page=page
          and pages="\<lambda>r. count_pages (pg r)" and response=response, OF assms n])
  then show "observed (paginate (\<lambda>p. makeRequest rt this (ep p) schema) items
                   (\<lambda>r. count_pages (pg r)) acc page w) =
         Some (Inr (acc @ items response), fetched w @ [baseUrl this @ ep page])"
    by (simp add: observed_Some fetched_makeRequest)
next
  assume lt: "page < count_pages (pg response)"
  show "paginate (\<lambda>p. makeRequest rt this (ep p) schema) items (\<lambda>r. count_pages (pg r)) acc page w =
         paginate (\<lambda>p. makeRequest rt this (ep p) schema) items (\<lambda>r. count_pages (pg r))
           (acc @ items response) (page + 1) (snd (makeRequest rt this (ep page) schema w))"
    by (rule paginate_next_page[where request="\<lambda>p. makeRequest rt this (ep p) schema" and page=page
          and pages="\<lambda>r. count_pages (pg r)" and response=response, OF assms lt])
next
  fix res fs
  assume lt: "page < count_pages (pg response)"
  assume o: "observed (paginate (\<lambda>p. makeRequest rt this (ep p) schema) items
                        (\<lambda>r. count_pages (pg r)) acc page w) = Some (res, fs)"
  have nx: "paginate (\<lambda>p. makeRequest rt this (ep p) schema) items (\<lambda>r. count_pages (pg r)) acc page w =
         paginate (\<lambda>p. makeRequest rt this (ep p) schema) items (\<lambda>r. count_pages (pg r))
           (acc @ items response) (page + 1) (snd (makeRequest rt this (ep page) schema w))"
    by (rule paginate_next_page[where request="\<lambda>p. makeRequest rt this (ep p) schema" and page=page
          and pages="\<lambda>r. count_pages (pg r)" and response=response, OF assms lt])
  from o obtain w' where
    p: "paginate (\<lambda>p. makeRequest rt this (ep p) schema) items (\<lambda>r. count_pages (pg r))
           (acc @ items response) (page + 1) (snd (makeRequest rt this (ep page) schema w)) =
        Some (res, w')"
    and f: "fs = fetched w'"
    unfolding nx by (auto simp: observed_def)
  have "\<exists>rest. fetched w' =
      fetched (snd (makeRequest rt this (ep page) schema w)) @ (baseUrl this @ ep (page + 1)) # rest"
    by (rule paginate_fetched_extends[where request="\<lambda>p. makeRequest rt this (ep p) schema"
          and u="\<lambda>p. baseUrl this @ ep p", OF fetched_makeRequest p])
  then show "\<exists>rest. fs = fetched w @ (baseUrl this @ ep page) # (baseUrl this @ ep (page + 1)) # rest"
    using f by (simp add: fetched_makeRequest)
qed

lemma two_pages_users_run:
  "paginate (\<lambda>p. makeRequest (backend two_pages) demo_client (users_endpoint p) demo_users_schema)
     ClockodoUsersResponse.data (\<lambda>r. count_pages (ClockodoUsersResponse.paging r)) [] 1 w_init =
   Some (Inr [user 1 ''alice'', user 2 ''bob'', user 3 ''carol''],
         fold (\<lambda>p w. snd (makeRequest (backend two_pages) demo_client (users_endpoint p)
                 demo_users_schema w)) [1..2] w_init)"
proof -
  have n: "(1::int) \<le> 2" by simp
  have d: "\<And>p w. 1 \<le> p \<Longrightarrow> p \<le> 2 \<Longrightarrow>
      fst (makeRequest (backend two_pages) demo_client (users_endpoint p) demo_users_schema w) =
      Inr (users_page p)"
    by (rule makeRequest_delivers[OF two_pages_users])
  show ?thesis
    by (subst paginate_all[where request="\<lambda>p. makeRequest (backend two_pages) demo_client
            (users_endpoint p) demo_users_schema" and resp=users_page and k=1 and N=2
          and pages="\<lambda>r. count_pages (ClockodoUsersResponse.paging r)", OF d two_pages_counts(1) n])
       (simp_all add: upto_1_2 users_page_def)
qed

theorem C3_continue_witness:
  "observed (paginate
      (\<lambda>p. makeRequest (backend two_pages) demo_client (users_endpoint p) demo_users_schema)
      ClockodoUsersResponse.data (\<lambda>r. count_pages (ClockodoUsersResponse.paging r))
      [user 1 ''alice'', user 2 ''bob''] 2 w_init) =
     Some (Inr [user 1 ''alice'', user 2 ''bob'', user 3 ''carol''], [users_url ''2''])
   \<and> paginate
      (\<lambda>p. makeRequest (backend two_pages) demo_client (users_endpoint p) demo_users_schema)
      ClockodoUsersResponse.data (\<lambda>r. count_pages (ClockodoUsersResponse.paging r)) [] 1 w_init =
     paginate
      (\<lambda>p. makeRequest (backend two_pages) demo_client (users_endpoint p) demo_users_schema)
      ClockodoUsersResponse.data (\<lambda>r. count_pages (ClockodoUsersResponse.paging r))
      [user 1 ''alice'', user 2 ''bob''] 2
      (snd (makeRequest (backend two_pages) demo_client (users_endpoint 1) demo_users_schema w_init))
   \<and> (\<exists>rest. [users_url ''1'', users_url ''2''] = users_url ''1'' # users_url ''2'' # rest)"
proof -
  have a2: "fst (makeRequest (backend two_pages) demo_client (users_endpoint 2) demo_users_schema
      w_init) = Inr (users_page 2)"
    by (rule makeRequest_delivers[OF two_pages_users]) simp_all
  have a1: "fst (makeRequest (backend two_pages) demo_client (users_endpoint 1) demo_users_schema
      w_init) = Inr (users_page 1)"
    by (rule makeRequest_delivers[OF two_pages_users]) simp_all
  have n2: "\<not> 2 < count_pages (ClockodoUsersResponse.paging (users_page 2))"
    by (simp add: two_pages_counts)
  have l1: "1 < count_pages (ClockodoUsersResponse.paging (users_page 1))"
    by (simp add: two_pages_counts)
  have 1: "observed (paginate
      (\<lambda>p. makeRequest (backend two_pages) demo_client (users_endpoint p) demo_users_schema)
      ClockodoUsersResponse.data (\<lambda>r. count_pages (ClockodoUsersResponse.paging r))
      [user 1 ''alice'', user 2 ''bob''] 2 w_init) =
     Some (Inr [user 1 ''alice'', user 2 ''bob'', user 3 ''carol''], [users_url ''2''])"
    using C3_continue[where ep=users_endpoint and page=2 and pg=ClockodoUsersResponse.paging
        and items=ClockodoUsersResponse.data and acc="[user 1 ''alice'', user 2 ''bob'']",
        OF a2, THEN conjunct1, THEN mp, OF n2]
    by (simp add: users_page_def demo_urls w_init_def)
  note c = C3_continue[where ep=users_endpoint and page=1 and pg=ClockodoUsersResponse.paging
        and items=ClockodoUsersResponse.data and acc="[]",
        OF a1, THEN conjunct2, THEN mp, OF l1]
  have 2: "paginate
      (\<lambda>p. makeRequest (backend two_pages) demo_client (users_endpoint p) demo_users_schema)
      ClockodoUsersResponse.data (\<lambda>r. count_pages (ClockodoUsersResponse.paging r)) [] 1 w_init =
     paginate
      (\<lambda>p. makeRequest (backend two_pages) demo_client (users_endpoint p) demo_users_schema)
      ClockodoUsersResponse.data (\<lambda>r. count_pages (ClockodoUsersResponse.paging r))
      [user 1 ''alice'', user 2 ''bob''] 2
      (snd (makeRequest (backend two_pages) demo_client (users_endpoint 1) demo_users_schema w_init))"
    using c[THEN conjunct1] by (simp add: users_page_def)
  have o: "observed (paginate
      (\<lambda>p. makeRequest (backend two_pages) demo_client (users_endpoint p) demo_users_schema)
      ClockodoUsersResponse.data (\<lambda>r. count_pages (ClockodoUsersResponse.paging r)) [] 1 w_init) =
     Some (Inr [user 1 ''alice'', user 2 ''bob'', user 3 ''carol''], [users_url ''1'', users_url ''2''])"
    by (simp only: two_pages_users_run observed_Some fetched_fold_makeRequest)
       (simp add: upto_1_2 demo_urls w_init_def)
  have 3: "\<exists>rest. [users_url ''1'', users_url ''2''] = users_url ''1'' # users_url ''2'' # rest"
    using c[THEN conjunct2, THEN spec, THEN spec, THEN mp, OF o]
    by (simp add: demo_urls w_init_def)
  show ?thesis by (intro conjI) (rule 1, rule 2, rule 3)
qed

lemma skewed_users:
  assumes "1 \<le> p" and "p \<le> 2"
  shows "delivers (backend skewed) demo_client (users_endpoint p) demo_users_schema
     (if p = 1
      then \<lparr>ClockodoUsersResponse.data = [user 1 ''alice'', user 2 ''bob''], paging = envelope 2 2\<rparr>
      else \<lparr>ClockodoUsersResponse.data = [user 3 ''carol''], paging = envelope 2 2\<rparr>)"
  using element_1_2[OF assms]
  by (auto simp: delivers_def backend_def skewed_def fetch_request_def demo_client_def
      users_endpoint_def show_int_1 show_int_2 users_url_def success_def ok_def
      demo_users_schema_def)

theorem C3_counterexample:
  "delivers (backend skewed) demo_client (users_endpoint 1) demo_users_schema
     \<lparr>ClockodoUsersResponse.data = [user 1 ''alice'', user 2 ''bob''], paging = envelope 2 2\<rparr>
   \<and> \<not> current_page (envelope 2 2) < count_pages (envelope 2 2)
   \<and> observed (getUsers (backend skewed) demo_client demo_users_schema w_init) =
       Some (Inr [user 1 ''alice'', user 2 ''bob'', user 3 ''carol''],
             [users_url ''1'', users_url ''2''])"
proof -
  have n: "(1::int) \<le> 2" by simp
  have 1: "delivers (backend skewed) demo_client (users_endpoint 1) demo_users_schema
     \<lparr>ClockodoUsersResponse.data = [user 1 ''alice'', user 2 ''bob''], paging = envelope 2 2\<rparr>"
    using skewed_users[of 1] by simp
  have 2: "\<not> current_page (envelope 2 2) < count_pages (envelope 2 2)"
    by (simp add: envelope_def)
  have 3: "observed (getUsers (backend skewed) demo_client demo_users_schema w_init) =
       Some (Inr [user 1 ''alice'', user 2 ''bob'', user 3 ''carol''],
             [users_url ''1'', users_url ''2''])"
    unfolding getUsers_def
    by (subst retrieve_pages_observed[where N=2 and ep=users_endpoint and schema=demo_users_schema
          and resp="\<lambda>p. if p = 1
            then \<lparr>ClockodoUsersResponse.data = [user 1 ''alice'', user 2 ''bob''], paging = envelope 2 2\<rparr>
            else \<lparr>ClockodoUsersResponse.data = [user 3 ''carol''], paging = envelope 2 2\<rparr>",
          OF n skewed_users])
       (simp_all add: upto_1_2 demo_urls w_init_def envelope_def)
  show ?thesis by (intro conjI) (rule 1, rule 2, rule 3)
qed

subsection \<open>The API key\<close>

lemma makeRequest_key_independent:
  assumes "ClockodoAPI.email c1 = ClockodoAPI.email c2"
      and "baseUrl c1 = baseUrl c2"
      and "\<And>target. fetch rt (fetch_request c1 target) = fetch rt (fetch_request c2 target)"
  shows "makeRequest rt c1 endpoint schema = makeRequest rt c2 endpoint schema"
  by (rule ext) (simp add: makeRequest_def makeRequest_try_def assms)

lemma makeRequest_logs_request_line:
  "\<exists>rest. log_lines (snd (makeRequest rt this endpoint schema w)) =
     log_lines w @ request_line this (baseUrl this @ endpoint) # rest"
  by (auto simp: makeRequest_def makeRequest_try_def Let_def request_line_def
      Logger_logRequest_def Logger_logResponse_def Logger_logError_def log_lines_Logger_log
      log_lines_fetched_update split: sum.splits thrown.splits json.splits)

text \<open>
  Take two environments with the same account identifier whose API keys are both empty or
  both not empty. The two constructions end alike: the same error or success, and the same
  log. When they succeed and \<open>fetch\<close> does with the requests of the two clients
  alike, every request and every retrieval operation of the two clients gives the same
  result, the same log and the same list of fetched URLs. The header line of the log shows
  the key as three asterisks.
\<close>

lemma key_masked_unless_fetch_tells:
  fixes rt :: "('i, 'j) runtime" and w0 w :: "('i, 'j) world"
  assumes "env1 ''CLOCKODO_EMAIL'' = env2 ''CLOCKODO_EMAIL''"
      and "(or_empty (env1 ''CLOCKODO_API_KEY'') = []) = (or_empty (env2 ''CLOCKODO_API_KEY'') = [])"
  shows
   "snd (ClockodoAPI_new env1 w0) = snd (ClockodoAPI_new env2 w0)
    \<and> (\<forall>e. (fst (ClockodoAPI_new env1 w0) = Inl e) = (fst (ClockodoAPI_new env2 w0) = Inl e))
    \<and> (\<forall>c1 c2.
         fst (ClockodoAPI_new env1 w0) = Inr c1 \<and> fst (ClockodoAPI_new env2 w0) = Inr c2 \<and>
         (\<forall>target. fetch rt (fetch_request c1 target) = fetch rt (fetch_request c2 target)) \<longrightarrow>
           makeRequest rt c1 endpoint schema w = makeRequest rt c2 endpoint schema w
         \<and> getUsers rt c1 US w = getUsers rt c2 US w
         \<and> getEntries rt c1 ES userId timeSince timeUntil w =
             getEntries rt c2 ES userId timeSince timeUntil w
         \<and> getProjects rt c1 PS w = getProjects rt c2 PS w
         \<and> (\<exists>rest. log_lines (snd (makeRequest rt c1 endpoint schema w)) =
               log_lines w @ request_line c2 (baseUrl c2 @ endpoint) # rest)
         \<and> (\<forall>target. (''X-ClockodoApiKey'', ''***'') \<in>
               set (case (request_line c1 target :: ('i, 'j) log_line) of
                      Line message (HeadersData hs) \<Rightarrow> hs | _ \<Rightarrow> [])))"
proof (intro conjI allI impI)
  show "snd (ClockodoAPI_new env1 w0) = snd (ClockodoAPI_new env2 w0)"
    using assms by (auto simp: ClockodoAPI_new_def Let_def)
next
  fix e :: "'i thrown"
  show "(fst (ClockodoAPI_new env1 w0) = Inl e) = (fst (ClockodoAPI_new env2 w0) = Inl e)"
    using assms by (auto simp: ClockodoAPI_new_def Let_def)
next
  fix c1 c2
  assume h: "fst (ClockodoAPI_new env1 w0) = Inr c1 \<and> fst (ClockodoAPI_new env2 w0) = Inr c2 \<and>
         (\<forall>target. fetch rt (fetch_request c1 target) = fetch rt (fetch_request c2 target))"
  have e: "ClockodoAPI.email c1 = ClockodoAPI.email c2" and b: "baseUrl c1 = baseUrl c2"
    using h assms(1) by (auto simp: ClockodoAPI_new_def Let_def split: if_splits)
  have f: "\<And>target. fetch rt (fetch_request c1 target) = fetch rt (fetch_request c2 target)"
    using h by simp
  note m = makeRequest_key_independent[of c1 c2 rt, OF e b f]
  show "makeRequest rt c1 endpoint schema w = makeRequest rt c2 endpoint schema w"
    by (simp only: m)
  show "getUsers rt c1 US w = getUsers rt c2 US w"
    by (simp only: getUsers_def m)
  show "getEntries rt c1 ES userId timeSince timeUntil w =
             getEntries rt c2 ES userId timeSince timeUntil w"
    by (simp only: getEntries_def m)
  show "getProjects rt c1 PS w = getProjects rt c2 PS w"
    by (simp only: getProjects_def m)
  show "\<exists>rest. log_lines (snd (makeRequest rt c1 endpoint schema w)) =
               log_lines w @ request_line c2 (baseUrl c2 @ endpoint) # rest"
    using makeRequest_logs_request_line[of rt c2 endpoint schema w] by (simp only: m)
  show "(''X-ClockodoApiKey'', ''***'') \<in>
               set (case (request_line c1 target :: ('i, 'j) log_line) of
                      Line message (HeadersData hs) \<Rightarrow> hs | _ \<Rightarrow> [])" for target
    by (simp add: request_line_def)
qed

lemma makeRequest_fetch_rejected_world:
  assumes "fetch rt (fetch_request this (baseUrl this @ endpoint)) = Inl e"
      and "\<not> is_ZodError e"
  shows "makeRequest rt this endpoint schema w =
           (Inl e,
            Logger_logError ''Request failed''
              (RequestFailedData (error_text rt e) (baseUrl this @ endpoint))
              ((Logger_logRequest ''GET'' (baseUrl this @ endpoint)
                  [(''Accept'', ''application/json''),
                   (''X-ClockodoApiUser'', ClockodoAPI.email this),
                   (''X-ClockodoApiKey'', ''***''),
                   (''X-Clockodo-External-Application'', ''mcp-ts'')] w)
               \<lparr>fetched := fetched w @ [baseUrl this @ endpoint]\<rparr>))"
  using assms
  by (cases e)
     (simp_all add: makeRequest_def makeRequest_try_def Let_def Logger_logRequest_def
        fetched_Logger_log)

lemma header_checking_rejects:
  "fetch (header_checking rt) (fetch_request (demo_client\<lparr>apiKey := key_with_line_feed\<rparr>) target) =
     Inl (JsError ''TypeError'' (invalid_header_message key_with_line_feed))"
  "fetch (header_checking rt) (fetch_request (demo_client\<lparr>apiKey := other_key_with_line_feed\<rparr>) target) =
     Inl (JsError ''TypeError'' (invalid_header_message other_key_with_line_feed))"
  by (simp_all add: header_checking_def fetch_request_def demo_client_def key_with_line_feed_def
      other_key_with_line_feed_def normalize_header_value_def valid_header_value_def
      http_whitespace_def)

lemma header_checking_passes:
  "fetch (header_checking rt) (fetch_request demo_client target) =
     fetch rt (fetch_request demo_client target)"
  by (simp add: header_checking_def fetch_request_def demo_client_def
      normalize_header_value_def valid_header_value_def http_whitespace_def)

lemma key_in_message:
  "mentions (invalid_header_message key_with_line_feed) key_with_line_feed"
  "mentions (''Failed to fetch users from Clockodo API: '' @ invalid_header_message key_with_line_feed)
     key_with_line_feed"
  by (simp_all add: invalid_header_message_def key_with_line_feed_def)


text \<open>
  C9. An API key that holds a line feed shows up in the text the client produces. The
  constructor accepts the key (it is not empty). \<open>fetch\<close> rejects the request before any
  backend is contacted, with a TypeError whose message quotes the header value, that is:
  the key. The request writes that message to the log, in the line "Request failed", and
  throws the error on; \<open>getUsers\<close> puts the message into the error it throws. Two such
  keys give two different error messages, with the backend and all else the same. A key
  without a line feed reaches the backend.
\<close>

theorem C9_key_in_error:
  "fst (ClockodoAPI_new (demo_env(''CLOCKODO_API_KEY'' \<mapsto> key_with_line_feed)) w_init) =
     Inr (demo_client\<lparr>apiKey := key_with_line_feed\<rparr>)
   \<and> fst (makeRequest (header_checking (backend two_pages))
            (demo_client\<lparr>apiKey := key_with_line_feed\<rparr>) (users_endpoint 1)
            demo_users_schema w_init) =
       Inl (JsError ''TypeError'' (invalid_header_message key_with_line_feed))
   \<and> last (log_lines (snd (makeRequest (header_checking (backend two_pages))
            (demo_client\<lparr>apiKey := key_with_line_feed\<rparr>) (users_endpoint 1)
            demo_users_schema w_init))) =
       Line ''!!! ERROR: Request failed''
         (RequestFailedData (invalid_header_message key_with_line_feed) (users_url ''1''))
   \<and> observed (getUsers (header_checking (backend two_pages))
            (demo_client\<lparr>apiKey := key_with_line_feed\<rparr>) demo_users_schema w_init) =
       Some (Inl (JsError ''Error''
               (''Failed to fetch users from Clockodo API: '' @
                invalid_header_message key_with_line_feed)),
             [users_url ''1''])
   \<and> mentions (invalid_header_message key_with_line_feed) key_with_line_feed
   \<and> mentions
        (''Failed to fetch users from Clockodo API: '' @ invalid_header_message key_with_line_feed)
        key_with_line_feed
   \<and> observed (getUsers (header_checking (backend two_pages))
            (demo_client\<lparr>apiKey := key_with_line_feed\<rparr>) demo_users_schema w_init) \<noteq>
       observed (getUsers (header_checking (backend two_pages))
            (demo_client\<lparr>apiKey := other_key_with_line_feed\<rparr>) demo_users_schema w_init)
   \<and> fetch (header_checking (backend two_pages))
         (fetch_request demo_client (baseUrl demo_client @ users_endpoint 1)) =
       success (JsonValue (UsersJson (users_page 1)))"
proof -
  have c: "fst (ClockodoAPI_new (demo_env(''CLOCKODO_API_KEY'' \<mapsto> key_with_line_feed)) w_init) =
     Inr (demo_client\<lparr>apiKey := key_with_line_feed\<rparr>)"
    by (simp add: ClockodoAPI_new_def or_empty_def Let_def demo_env_def demo_client_def
        key_with_line_feed_def)
  have u: "baseUrl (demo_client\<lparr>apiKey := k\<rparr>) @ users_endpoint 1 = users_url ''1''" for k
    by (simp add: demo_client_def users_endpoint_def users_url_def show_int_1)
  have z: "\<not> is_ZodError (JsError ''TypeError'' m :: string thrown)" for m by simp
  note m1 = makeRequest_fetch_rejected_world[where rt="header_checking (backend two_pages)"
      and this="demo_client\<lparr>apiKey := key_with_line_feed\<rparr>" and endpoint="users_endpoint 1"
      and schema=demo_users_schema, OF header_checking_rejects(1) z]
  note m2 = makeRequest_fetch_rejected_world[where rt="header_checking (backend two_pages)"
      and this="demo_client\<lparr>apiKey := other_key_with_line_feed\<rparr>" and endpoint="users_endpoint 1"
      and schema=demo_users_schema, OF header_checking_rejects(2) z]
  have r: "fst (makeRequest (header_checking (backend two_pages))
            (demo_client\<lparr>apiKey := key_with_line_feed\<rparr>) (users_endpoint 1)
            demo_users_schema w_init) =
       Inl (JsError ''TypeError'' (invalid_header_message key_with_line_feed))"
    by (simp only: m1 fst_conv)
  have l: "last (log_lines (snd (makeRequest (header_checking (backend two_pages))
            (demo_client\<lparr>apiKey := key_with_line_feed\<rparr>) (users_endpoint 1)
            demo_users_schema w_init))) =
       Line ''!!! ERROR: Request failed''
         (RequestFailedData (invalid_header_message key_with_line_feed) (users_url ''1''))"
    by (simp only: m1 snd_conv Logger_logError_def log_lines_Logger_log u error_text.simps)
       simp
  have g: "observed (getUsers (header_checking (backend two_pages))
            (demo_client\<lparr>apiKey := k\<rparr>) demo_users_schema w_init) =
       Some (Inl (JsError ''Error''
               (''Failed to fetch users from Clockodo API: '' @ invalid_header_message k)),
             [users_url ''1''])"
    if f: "fetch (header_checking (backend two_pages))
             (fetch_request (demo_client\<lparr>apiKey := k\<rparr>)
                (baseUrl (demo_client\<lparr>apiKey := k\<rparr>) @ users_endpoint 1)) =
           Inl (JsError ''TypeError'' (invalid_header_message k))" for k
  proof -
    have q: "fst (makeRequest (header_checking (backend two_pages)) (demo_client\<lparr>apiKey := k\<rparr>)
        (users_endpoint 1) demo_users_schema w_init) =
        Inl (JsError ''TypeError'' (invalid_header_message k))"
      by (simp only: makeRequest_fetch_rejected_world[where schema=demo_users_schema, OF f z]
            fst_conv)
    have p: "paginate
        (\<lambda>p. makeRequest (header_checking (backend two_pages)) (demo_client\<lparr>apiKey := k\<rparr>)
               (users_endpoint p) demo_users_schema)
        ClockodoUsersResponse.data (\<lambda>response. count_pages (ClockodoUsersResponse.paging response))
        [] 1 w_init =
       Some (Inl (JsError ''TypeError'' (invalid_header_message k)),
             snd (makeRequest (header_checking (backend two_pages)) (demo_client\<lparr>apiKey := k\<rparr>)
                    (users_endpoint 1) demo_users_schema w_init))"
      by (rule paginate_request_fails[where request="\<lambda>p. makeRequest
            (header_checking (backend two_pages)) (demo_client\<lparr>apiKey := k\<rparr>)
            (users_endpoint p) demo_users_schema" and page=1, OF q])
    show ?thesis
      unfolding getUsers_def
      by (simp only: p rethrow_def option.case prod.case sum.case observed_Some
            fetched_makeRequest u error_text.simps)
         (simp add: w_init_def)
  qed
  note g1 = g[OF header_checking_rejects(1)]
  note g2 = g[OF header_checking_rejects(2)]
  have d: "observed (getUsers (header_checking (backend two_pages))
            (demo_client\<lparr>apiKey := key_with_line_feed\<rparr>) demo_users_schema w_init) \<noteq>
       observed (getUsers (header_checking (backend two_pages))
            (demo_client\<lparr>apiKey := other_key_with_line_feed\<rparr>) demo_users_schema w_init)"
    by (simp only: g1 g2)
       (simp add: invalid_header_message_def key_with_line_feed_def other_key_with_line_feed_def)
  have b: "fetch (header_checking (backend two_pages))
         (fetch_request demo_client (baseUrl demo_client @ users_endpoint 1)) =
       success (JsonValue (UsersJson (users_page 1)))"
    by (simp only: header_checking_passes)
       (simp add: backend_def two_pages_def fetch_request_def demo_client_def users_endpoint_def
          show_int_1 users_url_def)
  show ?thesis
    by (intro conjI) (rule c, rule r, rule l, rule g1, rule key_in_message(1),
        rule key_in_message(2), rule d, rule b)
qed

end
